theory Spec2Isabelle
  imports Complex_Main "HOL-Library.Sublist"
begin

section \<open>Text, errors and the remote judge's wire format\<close>

text \<open>
  A Python \<^verbatim>\<open>str\<close> is a sequence of Unicode code points; \<^verbatim>\<open>len\<close> counts them and
  slicing cuts between them. Text is therefore a list of code points, and a literal of the
  source is written \<open>py ''...''\<close>. A \<^verbatim>\<open>bytes\<close> value is a list of numbers below 256.
\<close>

type_synonym pystr = "nat list"

definition py :: "string \<Rightarrow> pystr" where
  "py s = map of_char s"

text \<open>Truthiness of an \<^verbatim>\<open>Optional[str]\<close>: \<^verbatim>\<open>None\<close> and the empty string are falsy.\<close>

fun truthy :: "pystr option \<Rightarrow> bool" where
  "truthy None = False"
| "truthy (Some s) = (s \<noteq> [])"

text \<open>\<^verbatim>\<open>d.get(key, default)\<close> on a key that holds a string when it is present.\<close>

fun get_default :: "'a option \<Rightarrow> 'a \<Rightarrow> 'a" where
  "get_default None d = d"
| "get_default (Some v) d = v"

text \<open>
  The exceptions of the two modules. \<open>HTTPException\<close> carries the status code and the
  detail text; the three decoding errors are what \<^verbatim>\<open>base64.b64decode\<close> raises
  (\<^verbatim>\<open>ValueError\<close> for a non-ASCII argument, \<^verbatim>\<open>binascii.Error\<close> for the other two);
  \<open>KeyError\<close> is a failed dictionary subscript.
\<close>

datatype error =
    HTTPException nat pystr
  | AsciiValueError
  | IncorrectPadding
  | InvalidDataCount
  | KeyError pystr

subsection \<open>\<^verbatim>\<open>base64.b64decode(s)\<close> with its default \<^verbatim>\<open>validate=False\<close>\<close>

text \<open>
  The standard alphabet: \<^verbatim>\<open>A-Z\<close> are 0..25, \<^verbatim>\<open>a-z\<close> 26..51, \<^verbatim>\<open>0-9\<close> 52..61,
  \<^verbatim>\<open>+\<close> is 62 and \<^verbatim>\<open>/\<close> is 63; every other byte is outside the alphabet.
\<close>

definition b64_value :: "nat \<Rightarrow> nat option" where
  "b64_value c =
     (if 65 \<le> c \<and> c \<le> 90 then Some (c - 65)
      else if 97 \<le> c \<and> c \<le> 122 then Some (c - 71)
      else if 48 \<le> c \<and> c \<le> 57 then Some (c + 4)
      else if c = 43 then Some 62
      else if c = 47 then Some 63
      else None)"

text \<open>
  The decoding loop of \<^verbatim>\<open>binascii.a2b_base64\<close> in its non-strict mode. The state is the
  position in the current group of four (\<open>quad_pos\<close>), the bits left over from the previous
  character (\<open>leftchar\<close>), the number of padding characters seen since the last data
  character (\<open>pads\<close>) and the bytes produced. A character outside the alphabet is skipped.
  A \<^verbatim>\<open>=\<close> ends the input once the group holds at least two characters and the padding
  completes it; otherwise it is skipped. Input that ends inside a group is an error.
\<close>

fun a2b_base64 :: "nat list \<Rightarrow> nat \<Rightarrow> nat \<Rightarrow> nat \<Rightarrow> nat list \<Rightarrow> error + nat list" where
  "a2b_base64 [] quad_pos leftchar pads out =
     (if quad_pos = 0 then Inr out
      else if quad_pos = 1 then Inl InvalidDataCount
      else Inl IncorrectPadding)"
| "a2b_base64 (c # cs) quad_pos leftchar pads out =
     (if c = 61 then
        (if quad_pos \<ge> 2 then
           (if quad_pos + (pads + 1) \<ge> 4 then Inr out
            else a2b_base64 cs quad_pos leftchar (pads + 1) out)
         else a2b_base64 cs quad_pos leftchar pads out)
      else
        (case b64_value c of
           None \<Rightarrow> a2b_base64 cs quad_pos leftchar pads out
         | Some v \<Rightarrow>
             (if quad_pos = 0 then a2b_base64 cs 1 v 0 out
              else if quad_pos = 1 then
                a2b_base64 cs 2 (v mod 16) 0 (out @ [leftchar * 4 + v div 16])
              else if quad_pos = 2 then
                a2b_base64 cs 3 (v mod 4) 0 (out @ [leftchar * 16 + v div 4])
              else a2b_base64 cs 0 0 0 (out @ [leftchar * 64 + v]))))"

text \<open>
  A \<^verbatim>\<open>str\<close> argument is first encoded as ASCII, which raises \<^verbatim>\<open>ValueError\<close> when a
  code point is above 127.
\<close>

definition b64decode :: "pystr \<Rightarrow> error + nat list" where
  "b64decode s =
     (if list_all (\<lambda>c. c < 128) s then a2b_base64 s 0 0 0 []
      else Inl AsciiValueError)"

subsection \<open>\<^verbatim>\<open>bytes.decode('utf-8', errors='ignore')\<close>\<close>

definition is_cont :: "nat \<Rightarrow> bool" where
  "is_cont b = (128 \<le> b \<and> b \<le> 191)"

text \<open>The second byte of a three-byte form: no overlong form after E0, no surrogate after ED.\<close>

definition second_ok3 :: "nat \<Rightarrow> nat \<Rightarrow> bool" where
  "second_ok3 b0 b1 =
     (if b0 = 224 then 160 \<le> b1 \<and> b1 \<le> 191
      else if b0 = 237 then 128 \<le> b1 \<and> b1 \<le> 159
      else is_cont b1)"

text \<open>The second byte of a four-byte form: no overlong form after F0, nothing above U+10FFFF.\<close>

definition second_ok4 :: "nat \<Rightarrow> nat \<Rightarrow> bool" where
  "second_ok4 b0 b1 =
     (if b0 = 240 then 144 \<le> b1 \<and> b1 \<le> 191
      else if b0 = 244 then 128 \<le> b1 \<and> b1 \<le> 143
      else is_cont b1)"

text \<open>
  The decoder with the \<^verbatim>\<open>ignore\<close> error handler: a byte that cannot start a character
  is dropped; a start byte whose continuation is wrong is dropped together with the
  continuation bytes that were accepted, and decoding resumes at the offending byte; a
  sequence cut off by the end of the input is dropped. No input makes it raise.
\<close>

fun utf8_ignore :: "nat list \<Rightarrow> pystr" where
  "utf8_ignore [] = []"
| "utf8_ignore (b0 # bs) =
     (if b0 < 128 then b0 # utf8_ignore bs
      else if 194 \<le> b0 \<and> b0 \<le> 223 then
        (case bs of
           [] \<Rightarrow> []
         | b1 # r1 \<Rightarrow>
             if is_cont b1 then ((b0 mod 32) * 64 + b1 mod 64) # utf8_ignore r1
             else utf8_ignore bs)
      else if 224 \<le> b0 \<and> b0 \<le> 239 then
        (case bs of
           [] \<Rightarrow> []
         | b1 # r1 \<Rightarrow>
             if \<not> second_ok3 b0 b1 then utf8_ignore bs
             else
               (case r1 of
                  [] \<Rightarrow> []
                | b2 # r2 \<Rightarrow>
                    if is_cont b2
                    then ((b0 mod 16) * 4096 + (b1 mod 64) * 64 + b2 mod 64) # utf8_ignore r2
                    else utf8_ignore r1))
      else if 240 \<le> b0 \<and> b0 \<le> 244 then
        (case bs of
           [] \<Rightarrow> []
         | b1 # r1 \<Rightarrow>
             if \<not> second_ok4 b0 b1 then utf8_ignore bs
             else
               (case r1 of
                  [] \<Rightarrow> []
                | b2 # r2 \<Rightarrow>
                    if \<not> is_cont b2 then utf8_ignore r1
                    else
                      (case r2 of
                         [] \<Rightarrow> []
                       | b3 # r3 \<Rightarrow>
                           if is_cont b3
                           then ((b0 mod 8) * 262144 + (b1 mod 64) * 4096
                                 + (b2 mod 64) * 64 + b3 mod 64) # utf8_ignore r3
                           else utf8_ignore r2)))
      else utf8_ignore bs)"

section \<open>The Code Executor Client (\<^verbatim>\<open>judge.py\<close>)\<close>

text \<open>A JSON scalar as it occurs in the judge's \<^verbatim>\<open>status\<close> object.\<close>

datatype jv = JInt int | JStr pystr

type_synonym status_dict = "(pystr \<times> jv) list"

text \<open>\<^verbatim>\<open>result.status.get("id", 0)\<close>\<close>

definition status_get_id :: "status_dict \<Rightarrow> jv" where
  "status_get_id st = get_default (map_of st (py ''id'')) (JInt 0)"

text \<open>\<^verbatim>\<open>status_id not in [1, 2]\<close>: the result is terminal.\<close>

definition terminal :: "jv \<Rightarrow> bool" where
  "terminal status_id = (status_id \<noteq> JInt 1 \<and> status_id \<noteq> JInt 2)"

text \<open>
  The JSON object of a \<^verbatim>\<open>GET /submissions/{token}\<close> response; \<open>None\<close> is an absent
  key or a null.
\<close>

record judge_payload =
  p_status :: "status_dict option"
  p_stdout :: "pystr option"
  p_stderr :: "pystr option"
  p_compile_output :: "pystr option"
  p_time :: "pystr option"
  p_memory :: "int option"

text \<open>
  What \<^verbatim>\<open>requests.get\<close> does: it times out, raises another
  \<^verbatim>\<open>RequestException\<close> (with its text), or returns a response with a status code, a
  body text and the parsed JSON.
\<close>

datatype fetch_http =
    FetchTimeout
  | FetchRequestException pystr
  | FetchResponse nat pystr judge_payload

text \<open>
  Modelled from the spec: \<^verbatim>\<open>CodeResultResponse\<close> of \<^verbatim>\<open>models.py\<close>, which is not
  among the sources: the polled result with its status, captured stdout, stderr and
  compile output, elapsed time and memory usage. An instance is an ordinary object and so
  is truthy.
\<close>

record code_result =
  status :: status_dict
  stdout :: "pystr option"
  stderr :: "pystr option"
  compile_output :: "pystr option"
  time :: "pystr option"
  memory :: "int option"

text \<open>
  One of the three \<^verbatim>\<open>if result.get(f): result[f] = base64.b64decode(result[f]).decode('utf-8',
  errors='ignore')\<close> statements: a falsy field is left as it is.
\<close>

definition decode_field :: "pystr option \<Rightarrow> error + pystr option" where
  "decode_field f =
     (if truthy f then
        (case b64decode (the f) of
           Inl e \<Rightarrow> Inl e
         | Inr bs \<Rightarrow> Inr (Some (utf8_ignore bs)))
      else Inr f)"

text \<open>
  \<^verbatim>\<open>get_submission_result\<close>, as a function of what the HTTP request did. Only the two
  \<^verbatim>\<open>requests\<close> exceptions are caught; an exception of the decoding leaves the function.
\<close>

definition get_submission_result :: "fetch_http \<Rightarrow> error + code_result" where
  "get_submission_result http =
     (case http of
        FetchTimeout \<Rightarrow> Inl (HTTPException 500 (py ''Judge0 result fetch timed out''))
      | FetchRequestException e \<Rightarrow> Inl (HTTPException 500 (py ''Judge0 error: '' @ e))
      | FetchResponse status_code text result \<Rightarrow>
          if status_code \<noteq> 200
          then Inl (HTTPException 500 (py ''Judge0 result fetch failed: '' @ text))
          else
            (case decode_field (p_stdout result) of
               Inl e \<Rightarrow> Inl e
             | Inr out \<Rightarrow>
                 (case decode_field (p_stderr result) of
                    Inl e \<Rightarrow> Inl e
                  | Inr err \<Rightarrow>
                      (case decode_field (p_compile_output result) of
                         Inl e \<Rightarrow> Inl e
                       | Inr cmp \<Rightarrow>
                           Inr \<lparr>status = get_default (p_status result) [],
                                stdout = out, stderr = err, compile_output = cmp,
                                time = p_time result, memory = p_memory result\<rparr>))))"

text \<open>
  What \<^verbatim>\<open>requests.post\<close> does for a submission: the status code, the body text and
  the \<^verbatim>\<open>token\<close> of the parsed JSON.
\<close>

datatype submit_http =
    SubmitTimeout
  | SubmitRequestException pystr
  | SubmitResponse nat pystr "pystr option"

text \<open>Modelled from the spec: \<^verbatim>\<open>CodeSubmissionRequest\<close> of \<^verbatim>\<open>models.py\<close>.\<close>

record submission_request =
  source_code :: pystr
  language_id :: nat
  stdin :: pystr

text \<open>\<^verbatim>\<open>submit_code\<close> returns the token.\<close>

definition submit_code :: "submit_http \<Rightarrow> error + pystr" where
  "submit_code http =
     (case http of
        SubmitTimeout \<Rightarrow> Inl (HTTPException 500 (py ''Judge0 submission timed out''))
      | SubmitRequestException e \<Rightarrow> Inl (HTTPException 500 (py ''Judge0 error: '' @ e))
      | SubmitResponse status_code text token \<Rightarrow>
          if status_code \<noteq> 200 \<and> status_code \<noteq> 201
          then Inl (HTTPException 500 (py ''Judge0 submission failed: '' @ text))
          else if \<not> truthy token
          then Inl (HTTPException 500 (py ''No token received from Judge0''))
          else Inr (the token))"

text \<open>
  The remote judge is the environment: what the \<open>i\<close>-th submission of a handler call
  answers to its request, and what the \<open>k\<close>-th poll of that submission's token answers.
\<close>

record judge_env =
  judge_post :: "nat \<Rightarrow> submission_request \<Rightarrow> submit_http"
  judge_get :: "nat \<Rightarrow> pystr \<Rightarrow> nat \<Rightarrow> fetch_http"

text \<open>The HTTP requests a handler makes, in order.\<close>

datatype http_call = POST | GET

section \<open>The Test Runner (\<^verbatim>\<open>run_code_tests\<close>)\<close>

text \<open>
  \<^verbatim>\<open>str.lower()\<close> on the ASCII letters. A character outside ASCII is left as it is: no
  key of the language tables holds one, so the lookup fails for such a name either way.
\<close>

definition lower_cp :: "nat \<Rightarrow> nat" where
  "lower_cp c = (if 65 \<le> c \<and> c \<le> 90 then c + 32 else c)"

definition lower :: "pystr \<Rightarrow> pystr" where
  "lower s = map lower_cp s"

text \<open>The code points for which \<^verbatim>\<open>str.isspace()\<close> holds; \<^verbatim>\<open>str.strip()\<close> removes them.\<close>

definition is_space :: "nat \<Rightarrow> bool" where
  "is_space c =
     ((9 \<le> c \<and> c \<le> 13) \<or> (28 \<le> c \<and> c \<le> 32) \<or> c = 133 \<or> c = 160
      \<or> c = 5760 \<or> (8192 \<le> c \<and> c \<le> 8202) \<or> c = 8232 \<or> c = 8233
      \<or> c = 8239 \<or> c = 8287 \<or> c = 12288)"

definition strip :: "pystr \<Rightarrow> pystr" where
  "strip s = rev (dropWhile is_space (rev (dropWhile is_space s)))"

definition LANGUAGE_MAP :: "(pystr \<times> nat) list" where
  "LANGUAGE_MAP =
     [(py ''python'', 71), (py ''javascript'', 63), (py ''java'', 62), (py ''cpp'', 54),
      (py ''c'', 50), (py ''go'', 60), (py ''rust'', 73), (py ''typescript'', 74)]"

text \<open>
  The text of \<^verbatim>\<open>list(d.keys())\<close> inside an f-string: the keys in quotes (code point
  39), separated by a comma and a space, in brackets.
\<close>

fun comma_sep :: "pystr list \<Rightarrow> pystr" where
  "comma_sep [] = []"
| "comma_sep [k] = 39 # k @ [39]"
| "comma_sep (k # ks) = 39 # k @ [39] @ py '', '' @ comma_sep ks"

definition repr_keys :: "pystr list \<Rightarrow> pystr" where
  "repr_keys ks = py ''['' @ comma_sep ks @ py '']''"

text \<open>An entry of \<^verbatim>\<open>task.test_cases\<close>: a dictionary read with \<^verbatim>\<open>.get(key, "")\<close>.\<close>

record test_case =
  tc_input :: "pystr option"
  tc_expected_output :: "pystr option"

text \<open>The row of \<^verbatim>\<open>CodingTask\<close> the runner reads.\<close>

record coding_task =
  task_session_id :: pystr
  test_cases :: "test_case list"

text \<open>
  An entry of \<^verbatim>\<open>test_results\<close>. \<open>tr_error\<close>, \<open>tr_execution_time\<close> and
  \<open>tr_memory_used\<close> are \<open>None\<close> when the entry has no such key; \<open>tr_actual\<close> is \<open>None\<close>
  for Python's \<^verbatim>\<open>None\<close>.
\<close>

record test_result =
  tr_test_case :: nat
  tr_passed :: bool
  tr_error :: "pystr option"
  tr_expected :: pystr
  tr_actual :: "pystr option"
  tr_execution_time :: "pystr option option"
  tr_memory_used :: "int option option"

text \<open>
  The polling loop of one test case, \<^verbatim>\<open>for attempt in range(max_attempts)\<close>: \<open>n\<close>
  attempts remain, \<open>k\<close> polls were made and \<open>result\<close> is the variable of that name. An
  exception of the fetch is swallowed and the loop sleeps and goes on; the loop is left
  when a fetched result is terminal. Returned are \<open>result\<close> and the number of polls.
\<close>

fun test_poll ::
  "(nat \<Rightarrow> fetch_http) \<Rightarrow> nat \<Rightarrow> nat \<Rightarrow> code_result option \<Rightarrow> code_result option \<times> nat" where
  "test_poll fetch 0 k result = (result, k)"
| "test_poll fetch (Suc n) k result =
     (case get_submission_result (fetch k) of
        Inl e \<Rightarrow> test_poll fetch n (Suc k) result
      | Inr r \<Rightarrow>
          if terminal (status_get_id (status r)) then (Some r, Suc k)
          else test_poll fetch n (Suc k) (Some r))"

text \<open>\<^verbatim>\<open>x or ""\<close> on an optional string.\<close>

definition or_empty :: "pystr option \<Rightarrow> pystr" where
  "or_empty x = (if truthy x then the x else [])"

text \<open>
  What the loop body does with \<open>result\<close> after polling, for the test case at index \<open>i\<close>
  with the stripped expected output: the entry appended to \<^verbatim>\<open>test_results\<close>.
\<close>

definition record_test :: "nat \<Rightarrow> pystr \<Rightarrow> code_result option \<Rightarrow> test_result" where
  "record_test i expected_output result =
     (case result of
        None \<Rightarrow>
          \<lparr>tr_test_case = i + 1, tr_passed = False,
           tr_error = Some (py ''Execution timeout''),
           tr_expected = expected_output, tr_actual = None,
           tr_execution_time = None, tr_memory_used = None\<rparr>
      | Some r \<Rightarrow>
          let actual_output = strip (or_empty (stdout r)) in
          if status_get_id (status r) = JInt 3 then
            \<lparr>tr_test_case = i + 1, tr_passed = (actual_output = expected_output),
             tr_error = None,
             tr_expected = expected_output, tr_actual = Some actual_output,
             tr_execution_time = Some (time r), tr_memory_used = Some (memory r)\<rparr>
          else
            \<lparr>tr_test_case = i + 1, tr_passed = False,
             tr_error = Some (if truthy (stderr r) then the (stderr r)
                              else if truthy (compile_output r) then the (compile_output r)
                              else py ''Unknown error''),
             tr_expected = expected_output, tr_actual = Some actual_output,
             tr_execution_time = None, tr_memory_used = None\<rparr>)"

text \<open>
  The loop over the test cases, from index \<open>i\<close>, with the accumulators
  \<^verbatim>\<open>test_results\<close> and \<^verbatim>\<open>passed_tests\<close> and the HTTP requests made so far. An
  exception of \<^verbatim>\<open>submit_code\<close> is not caught and ends the run.
\<close>

fun run_tests ::
  "judge_env \<Rightarrow> pystr \<Rightarrow> nat \<Rightarrow> nat \<Rightarrow> test_case list \<Rightarrow> test_result list \<Rightarrow> nat \<Rightarrow>
   http_call list \<Rightarrow> http_call list \<times> (error + test_result list \<times> nat)" where
  "run_tests env src lang_id i [] results passed calls = (calls, Inr (results, passed))"
| "run_tests env src lang_id i (tc # tcs) results passed calls =
     (let test_input = get_default (tc_input tc) [];
          expected_output = strip (get_default (tc_expected_output tc) []);
          request = \<lparr>source_code = src, language_id = lang_id, stdin = test_input\<rparr>
      in case submit_code (judge_post env i request) of
           Inl e \<Rightarrow> (calls @ [POST], Inl e)
         | Inr token \<Rightarrow>
             let (result, polls) = test_poll (judge_get env i token) 30 0 None;
                 entry = record_test i expected_output result
             in run_tests env src lang_id (Suc i) tcs (results @ [entry])
                  (if tr_passed entry then passed + 1 else passed)
                  (calls @ POST # replicate polls GET))"

text \<open>The dictionary \<^verbatim>\<open>run_code_tests\<close> returns (the database's submission id apart).\<close>

record test_report =
  score :: rat
  passed_tests :: nat
  total_tests :: nat
  test_results :: "test_result list"

text \<open>
  \<^verbatim>\<open>run_code_tests\<close>: \<open>task\<close> is what the database query for the task id returned. The
  score is the quotient the source computes, taken exactly.
\<close>

definition run_code_tests ::
  "judge_env \<Rightarrow> coding_task option \<Rightarrow> pystr \<Rightarrow> pystr \<Rightarrow> http_call list \<times> (error + test_report)" where
  "run_code_tests env task src language =
     (case task of
        None \<Rightarrow> ([], Inl (HTTPException 404 (py ''Coding task not found'')))
      | Some t \<Rightarrow>
          (case map_of LANGUAGE_MAP (lower language) of
             None \<Rightarrow>
               ([], Inl (HTTPException 400
                      (py ''Unsupported language: '' @ language @ py ''. Supported: ''
                       @ repr_keys (map fst LANGUAGE_MAP))))
           | Some lang_id \<Rightarrow>
               let total = length (test_cases t) in
               (case run_tests env src lang_id 0 (test_cases t) [] 0 [] of
                  (calls, Inl e) \<Rightarrow> (calls, Inl e)
                | (calls, Inr (results, passed)) \<Rightarrow>
                    (calls,
                     Inr \<lparr>score = (if total > 0 then (of_nat passed / of_nat total) * 100 else 0),
                          passed_tests = passed, total_tests = total,
                          test_results = results\<rparr>))))"

section \<open>The coding session manager (\<^verbatim>\<open>ws_coding.py\<close>)\<close>

text \<open>
  An opaque JSON value (the cursor of an edit) is kept as its text. A timestamp of
  \<^verbatim>\<open>datetime.utcnow()\<close> is the number of microseconds since the epoch, so that
  \<^verbatim>\<open>(t - u).total_seconds() > 30\<close> is \<open>t - u > 30000000\<close>.
\<close>

type_synonym json = pystr

record snapshot =
  snap_code :: pystr
  snap_timestamp :: int
  snap_cursor :: json

record paste_event =
  paste_content :: pystr
  paste_timestamp :: int
  paste_length :: nat

text \<open>The dictionary stored per session; the channel is the identity of its websocket.\<close>

record connection =
  websocket :: nat
  task_id :: pystr
  last_code :: pystr
  last_activity :: int
  paste_events :: "paste_event list"
  tab_switches :: nat

text \<open>
  An inbound message: a JSON object whose fields are strings when present, \<open>None\<close> when
  the key is absent.
\<close>

record message =
  msg_type :: "pystr option"
  msg_code :: "pystr option"
  msg_cursor :: "json option"
  msg_language :: "pystr option"
  msg_input :: "pystr option"
  msg_content :: "pystr option"

text \<open>The text of an error field: a literal, or a prefix followed by \<^verbatim>\<open>str(e)\<close>.\<close>

datatype err_text = Lit pystr | Exc pystr error

text \<open>
  The outbound events. \<open>RunResult\<close> is \<^verbatim>\<open>run_result\<close> with \<^verbatim>\<open>success: True\<close> and the
  stdout, stderr, time, memory and status of the result; \<open>RunFailure\<close> is
  \<^verbatim>\<open>run_result\<close> with \<^verbatim>\<open>success: False\<close> and the error; likewise for
  \<^verbatim>\<open>submit_result\<close>. \<open>ProctorAlert\<close> holds the event kind, the message and the
  severity.
\<close>

datatype event =
    EditAck int
  | RunResult "pystr option" "pystr option" "pystr option" "int option" status_dict
  | RunFailure err_text
  | SubmitResult test_report
  | SubmitFailure err_text
  | ProctorAlert pystr pystr pystr
  | ErrorEvent err_text

text \<open>
  \<^verbatim>\<open>CodingSessionManager\<close>: its two dictionaries, and what it has done to the outside:
  the events sent, each with the websocket it went to, and the HTTP requests made to the
  judge.
\<close>

record manager =
  active_connections :: "pystr \<rightharpoonup> connection"
  code_snapshots :: "pystr \<rightharpoonup> snapshot list"
  sent :: "(nat \<times> event) list"
  http_log :: "http_call list"

definition connect :: "manager \<Rightarrow> nat \<Rightarrow> pystr \<Rightarrow> pystr \<Rightarrow> int \<Rightarrow> manager" where
  "connect m ws session_id tid now =
     (let m1 = m\<lparr>active_connections := (active_connections m)(session_id \<mapsto>
                  \<lparr>websocket = ws, task_id = tid, last_code = [], last_activity = now,
                   paste_events = [], tab_switches = 0\<rparr>)\<rparr>
      in if code_snapshots m1 session_id = None
         then m1\<lparr>code_snapshots := (code_snapshots m1)(session_id \<mapsto> [])\<rparr>
         else m1)"

definition disconnect :: "manager \<Rightarrow> pystr \<Rightarrow> manager" where
  "disconnect m session_id =
     (if active_connections m session_id \<noteq> None
      then m\<lparr>active_connections := (active_connections m)(session_id := None)\<rparr>
      else m)"

definition send_message :: "manager \<Rightarrow> pystr \<Rightarrow> event \<Rightarrow> manager" where
  "send_message m session_id ev =
     (case active_connections m session_id of
        None \<Rightarrow> m
      | Some c \<Rightarrow> m\<lparr>sent := sent m @ [(websocket c, ev)]\<rparr>)"

subsection \<open>\<^verbatim>\<open>_handle_code_edit\<close>\<close>

definition should_snapshot :: "snapshot list \<Rightarrow> pystr \<Rightarrow> int \<Rightarrow> bool" where
  "should_snapshot snapshots code timestamp =
     (if length snapshots = 0 then True
      else if int (length code) - int (length (snap_code (last snapshots))) > 50 then True
      else timestamp - snap_timestamp (last snapshots) > 30000000)"

text \<open>The append with the cap: \<^verbatim>\<open>snapshots.append(..)\<close>, then \<^verbatim>\<open>pop(0)\<close> above 20.\<close>

definition append_snapshot :: "snapshot list \<Rightarrow> snapshot \<Rightarrow> snapshot list" where
  "append_snapshot snapshots s =
     (let appended = snapshots @ [s]
      in if length appended > 20 then tl appended else appended)"

text \<open>
  The handler returns the manager and the exception that left it, if any: the subscript
  \<^verbatim>\<open>self.code_snapshots[session_id]\<close> raises \<^verbatim>\<open>KeyError\<close> after the connection was
  already updated.
\<close>

definition handle_code_edit ::
  "manager \<Rightarrow> pystr \<Rightarrow> message \<Rightarrow> connection \<Rightarrow> int \<Rightarrow> manager \<times> error option" where
  "handle_code_edit m session_id msg c timestamp =
     (let code = get_default (msg_code msg) [];
          cursor_position = get_default (msg_cursor msg) (py ''{}'');
          c1 = c\<lparr>last_code := code, last_activity := timestamp\<rparr>;
          m1 = m\<lparr>active_connections := (active_connections m)(session_id \<mapsto> c1)\<rparr>
      in case code_snapshots m1 session_id of
           None \<Rightarrow> (m1, Some (KeyError session_id))
         | Some snapshots \<Rightarrow>
             let snapshots' =
                   (if should_snapshot snapshots code timestamp
                    then append_snapshot snapshots
                           \<lparr>snap_code = code, snap_timestamp = timestamp,
                            snap_cursor = cursor_position\<rparr>
                    else snapshots);
                 m2 = m1\<lparr>code_snapshots := (code_snapshots m1)(session_id \<mapsto> snapshots')\<rparr>
             in (send_message m2 session_id (EditAck timestamp), None))"

subsection \<open>\<^verbatim>\<open>_handle_run_code\<close>\<close>

definition language_map :: "(pystr \<times> nat) list" where
  "language_map =
     [(py ''python'', 71), (py ''javascript'', 63), (py ''java'', 62), (py ''cpp'', 54),
      (py ''c'', 50)]"

text \<open>
  The polling loop of a run, \<^verbatim>\<open>for _ in range(max_attempts)\<close>: \<open>n\<close> attempts remain,
  \<open>k\<close> polls were made, \<open>result\<close> is the variable of that name. Here an exception of the
  fetch is not caught in the loop and leaves it. Returned are \<open>result\<close>, or the exception,
  and the number of polls.
\<close>

fun run_poll ::
  "(nat \<Rightarrow> fetch_http) \<Rightarrow> nat \<Rightarrow> nat \<Rightarrow> code_result option \<Rightarrow>
   (error + code_result option) \<times> nat" where
  "run_poll fetch 0 k result = (Inr result, k)"
| "run_poll fetch (Suc n) k result =
     (case get_submission_result (fetch k) of
        Inl e \<Rightarrow> (Inl e, Suc k)
      | Inr r \<Rightarrow>
          if terminal (status_get_id (status r)) then (Inr (Some r), Suc k)
          else run_poll fetch n (Suc k) (Some r))"

definition handle_run_code :: "judge_env \<Rightarrow> manager \<Rightarrow> pystr \<Rightarrow> message \<Rightarrow> manager" where
  "handle_run_code env m session_id msg =
     (let code = get_default (msg_code msg) [];
          language = get_default (msg_language msg) (py ''python'');
          stdin_input = get_default (msg_input msg) []
      in (case map_of language_map (lower language) of
            None \<Rightarrow>
              send_message m session_id
                (RunFailure (Lit (py ''Unsupported language: '' @ language)))
          | Some lang_id \<Rightarrow>
              (case submit_code (judge_post env 0
                      \<lparr>source_code = code, language_id = lang_id, stdin = stdin_input\<rparr>) of
                 Inl e \<Rightarrow>
                   send_message (m\<lparr>http_log := http_log m @ [POST]\<rparr>) session_id
                     (RunFailure (Exc [] e))
               | Inr token \<Rightarrow>
                   (case run_poll (judge_get env 0 token) 15 0 None of
                      (Inl e, polls) \<Rightarrow>
                        send_message
                          (m\<lparr>http_log := http_log m @ POST # replicate polls GET\<rparr>)
                          session_id (RunFailure (Exc [] e))
                    | (Inr None, polls) \<Rightarrow>
                        send_message
                          (m\<lparr>http_log := http_log m @ POST # replicate polls GET\<rparr>)
                          session_id (RunFailure (Lit (py ''Execution timeout'')))
                    | (Inr (Some result), polls) \<Rightarrow>
                        send_message
                          (m\<lparr>http_log := http_log m @ POST # replicate polls GET\<rparr>)
                          session_id
                          (RunResult (stdout result) (stderr result) (time result)
                             (memory result) (status result))))))"

subsection \<open>\<^verbatim>\<open>_handle_submit_code\<close>\<close>

text \<open>\<open>db\<close> is the table of coding tasks the database query reads.\<close>

definition handle_submit_code ::
  "judge_env \<Rightarrow> (pystr \<Rightarrow> coding_task option) \<Rightarrow> manager \<Rightarrow> pystr \<Rightarrow> message \<Rightarrow> connection \<Rightarrow>
   manager" where
  "handle_submit_code env db m session_id msg c =
     (let code = get_default (msg_code msg) [];
          language = get_default (msg_language msg) (py ''python'')
      in case run_code_tests env (db (task_id c)) code language of
           (calls, Inl e) \<Rightarrow>
             send_message (m\<lparr>http_log := http_log m @ calls\<rparr>) session_id
               (SubmitFailure (Exc [] e))
         | (calls, Inr report) \<Rightarrow>
             send_message (m\<lparr>http_log := http_log m @ calls\<rparr>) session_id
               (SubmitResult report))"

subsection \<open>\<^verbatim>\<open>_handle_paste_event\<close> and \<^verbatim>\<open>_handle_tab_switch\<close>\<close>

definition paste_alert :: event where
  "paste_alert =
     ProctorAlert (py ''large_paste'') (py ''Large code paste detected'') (py ''medium'')"

definition handle_paste_event ::
  "manager \<Rightarrow> pystr \<Rightarrow> message \<Rightarrow> connection \<Rightarrow> int \<Rightarrow> manager" where
  "handle_paste_event m session_id msg c timestamp =
     (let pasted_content = get_default (msg_content msg) [];
          c1 = c\<lparr>paste_events := paste_events c @
                  [\<lparr>paste_content = take 200 pasted_content, paste_timestamp = timestamp,
                    paste_length = length pasted_content\<rparr>]\<rparr>;
          m1 = m\<lparr>active_connections := (active_connections m)(session_id \<mapsto> c1)\<rparr>
      in if length pasted_content > 100
         then send_message m1 session_id paste_alert
         else m1)"

text \<open>The decimal text of a number, as an f-string writes it.\<close>

fun str_nat :: "nat \<Rightarrow> pystr" where
  "str_nat n = (if n < 10 then [48 + n] else str_nat (n div 10) @ [48 + n mod 10])"

text \<open>The alert of \<^verbatim>\<open>_handle_tab_switch\<close> when the counter stands at \<open>n\<close>.\<close>

definition tab_alert :: "nat \<Rightarrow> event" where
  "tab_alert n =
     ProctorAlert (py ''excessive_tab_switching'')
       (py ''Multiple tab switches detected ('' @ str_nat n @ py '')'')
       (py ''high'')"

definition handle_tab_switch :: "manager \<Rightarrow> pystr \<Rightarrow> connection \<Rightarrow> manager" where
  "handle_tab_switch m session_id c =
     (let c1 = c\<lparr>tab_switches := tab_switches c + 1\<rparr>;
          m1 = m\<lparr>active_connections := (active_connections m)(session_id \<mapsto> c1)\<rparr>
      in if tab_switches c1 > 5
         then send_message m1 session_id (tab_alert (tab_switches c1))
         else m1)"

subsection \<open>\<^verbatim>\<open>handle_message\<close>\<close>

text \<open>The text of \<^verbatim>\<open>message.get("type")\<close> inside an f-string.\<close>

definition str_opt :: "pystr option \<Rightarrow> pystr" where
  "str_opt x = get_default x (py ''None'')"

text \<open>
  The dispatch inside the \<^verbatim>\<open>try\<close>: the manager after the handler, and the exception
  that reached the \<^verbatim>\<open>except\<close> clause, if any. \<open>now\<close> is what \<^verbatim>\<open>datetime.utcnow()\<close>
  returns in the handler.
\<close>

definition dispatch ::
  "judge_env \<Rightarrow> (pystr \<Rightarrow> coding_task option) \<Rightarrow> int \<Rightarrow> manager \<Rightarrow> pystr \<Rightarrow> message \<Rightarrow>
   connection \<Rightarrow> manager \<times> error option" where
  "dispatch env db now m session_id msg c =
     (let message_type = msg_type msg
      in if message_type = Some (py ''code_edit'')
           then handle_code_edit m session_id msg c now
         else if message_type = Some (py ''run_code'')
           then (handle_run_code env m session_id msg, None)
         else if message_type = Some (py ''submit_code'')
           then (handle_submit_code env db m session_id msg c, None)
         else if message_type = Some (py ''paste_event'')
           then (handle_paste_event m session_id msg c now, None)
         else if message_type = Some (py ''tab_switch'')
           then (handle_tab_switch m session_id c, None)
         else (send_message m session_id
                 (ErrorEvent (Lit (py ''Unknown message type: '' @ str_opt message_type))),
               None))"

definition handle_message ::
  "judge_env \<Rightarrow> (pystr \<Rightarrow> coding_task option) \<Rightarrow> int \<Rightarrow> manager \<Rightarrow> pystr \<Rightarrow> message \<Rightarrow>
   manager" where
  "handle_message env db now m session_id msg =
     (case active_connections m session_id of
        None \<Rightarrow> m
      | Some c \<Rightarrow>
          (case dispatch env db now m session_id msg c of
             (m', None) \<Rightarrow> m'
           | (m', Some e) \<Rightarrow>
               send_message m' session_id
                 (ErrorEvent (Exc (py ''Error handling message: '') e))))"

subsection \<open>The receive loop\<close>

text \<open>
  \<^verbatim>\<open>handle_coding_websocket\<close> hands the messages of a channel to \<^verbatim>\<open>handle_message\<close>
  one after the other; each message comes with the clock reading of its handler.
\<close>

fun process ::
  "judge_env \<Rightarrow> (pystr \<Rightarrow> coding_task option) \<Rightarrow> manager \<Rightarrow> pystr \<Rightarrow> (int \<times> message) list \<Rightarrow>
   manager" where
  "process env db m session_id [] = m"
| "process env db m session_id ((now, msg) # rest) =
     process env db (handle_message env db now m session_id msg) session_id rest"

section \<open>Concrete managers, messages and judges\<close>

definition empty_manager :: manager where
  "empty_manager =
     \<lparr>active_connections = Map.empty, code_snapshots = Map.empty, sent = [], http_log = []\<rparr>"

text \<open>A message of the given type with no other field.\<close>

definition msg_of :: "string \<Rightarrow> message" where
  "msg_of t =
     \<lparr>msg_type = Some (py t), msg_code = None, msg_cursor = None, msg_language = None,
      msg_input = None, msg_content = None\<rparr>"

text \<open>The connection \<^verbatim>\<open>connect\<close> stores for websocket 1 and task \<^verbatim>\<open>t1\<close> at time 0.\<close>

definition fresh_connection :: connection where
  "fresh_connection =
     \<lparr>websocket = 1, task_id = py ''t1'', last_code = [], last_activity = 0,
      paste_events = [], tab_switches = 0\<rparr>"

text \<open>The manager after session \<^verbatim>\<open>s1\<close> has connected.\<close>

definition session_one :: manager where
  "session_one = connect empty_manager 1 (py ''s1'') (py ''t1'') 0"

text \<open>
  A judge that accepts every submission and answers every poll with the status
  \<^verbatim>\<open>{"id": 1}\<close> (in queue).
\<close>

definition queued_payload :: judge_payload where
  "queued_payload =
     \<lparr>p_status = Some [(py ''id'', JInt 1)], p_stdout = None, p_stderr = None,
      p_compile_output = None, p_time = None, p_memory = None\<rparr>"

definition busy_env :: judge_env where
  "busy_env =
     \<lparr>judge_post = (\<lambda>i request. SubmitResponse 201 [] (Some (py ''tok''))),
      judge_get = (\<lambda>i token k. FetchResponse 200 [] queued_payload)\<rparr>"

definition no_tasks :: "pystr \<Rightarrow> coding_task option" where
  "no_tasks tid = None"

text \<open>The snapshot \<^verbatim>\<open>_handle_code_edit\<close> builds from a message handled at the given time.\<close>

definition snapshot_of :: "int \<times> message \<Rightarrow> snapshot" where
  "snapshot_of x =
     \<lparr>snap_code = get_default (msg_code (snd x)) [], snap_timestamp = fst x,
      snap_cursor = get_default (msg_cursor (snd x)) (py ''{}'')\<rparr>"

text \<open>A \<^verbatim>\<open>code_edit\<close> message with the given code.\<close>

definition edit_msg :: "pystr \<Rightarrow> message" where
  "edit_msg code = (msg_of ''code_edit'')\<lparr>msg_code := Some code\<rparr>"

text \<open>
  Session \<^verbatim>\<open>s1\<close> after a first edit at time 0 with ten characters of code: it holds one
  snapshot.
\<close>

definition edited_once :: manager where
  "edited_once =
     handle_message busy_env no_tasks 0 session_one (py ''s1'') (edit_msg (replicate 10 97))"

text \<open>\<open>n\<close> edits with empty code, 31 seconds apart from time 0 on.\<close>

definition spaced_edits :: "nat \<Rightarrow> (int \<times> message) list" where
  "spaced_edits n = map (\<lambda>i. (int i * 31000000, edit_msg [])) [0..<n]"

subsection \<open>Values named in the statements about the Test Runner\<close>

text \<open>
  The value of the variable \<^verbatim>\<open>result\<close> when the polling loop of the test case at index
  \<open>i\<close> is left (\<open>None\<close> also when the submission itself failed).
\<close>

definition polled_result ::
  "judge_env \<Rightarrow> pystr \<Rightarrow> nat \<Rightarrow> nat \<Rightarrow> test_case \<Rightarrow> code_result option" where
  "polled_result env src lang_id i tc =
     (case submit_code (judge_post env i
             \<lparr>source_code = src, language_id = lang_id,
              stdin = get_default (tc_input tc) []\<rparr>) of
        Inl e \<Rightarrow> None
      | Inr token \<Rightarrow> fst (test_poll (judge_get env i token) 30 0 None))"

text \<open>The entry of \<^verbatim>\<open>test_results\<close> for the test case at index \<open>i\<close>.\<close>

definition test_entry :: "judge_env \<Rightarrow> pystr \<Rightarrow> nat \<Rightarrow> nat \<Rightarrow> test_case \<Rightarrow> test_result" where
  "test_entry env src lang_id i tc =
     record_test i (strip (get_default (tc_expected_output tc) []))
       (polled_result env src lang_id i tc)"

text \<open>
  The task of the spec's example, with the cases \<^verbatim>\<open>[1,2,3]\<close> \<open>\<mapsto>\<close> \<^verbatim>\<open>6\<close> and
  \<^verbatim>\<open>[0]\<close> \<open>\<mapsto>\<close> \<^verbatim>\<open>0\<close>, and a task with no test case.
\<close>

definition two_tests :: coding_task where
  "two_tests =
     \<lparr>task_session_id = py ''s1'',
      test_cases =
        [\<lparr>tc_input = Some (py ''[1,2,3]''), tc_expected_output = Some (py ''6'')\<rparr>,
         \<lparr>tc_input = Some (py ''[0]''), tc_expected_output = Some (py ''0'')\<rparr>]\<rparr>"




text \<open>
  What the runner reports for the task \<open>two_tests\<close> with the judge \<open>busy_env\<close>, whose
  polls never leave the status \<^verbatim>\<open>{"id": 1}\<close>.
\<close>

definition pending_report :: test_report where
  "pending_report =
     \<lparr>score = 0, passed_tests = 0, total_tests = 2,
      test_results =
        [\<lparr>tr_test_case = 1, tr_passed = False, tr_error = Some (py ''Unknown error''),
          tr_expected = py ''6'', tr_actual = Some [], tr_execution_time = None,
          tr_memory_used = None\<rparr>,
         \<lparr>tr_test_case = 2, tr_passed = False, tr_error = Some (py ''Unknown error''),
          tr_expected = py ''0'', tr_actual = Some [], tr_execution_time = None,
          tr_memory_used = None\<rparr>]\<rparr>"

subsection \<open>Values named in the statements about the Code Executor Client\<close>

text \<open>
  A payload field as \<^verbatim>\<open>get_submission_result\<close> exposes it when its base64 text is accepted:
  the bytes decoded as UTF-8 with invalid sequences dropped; a falsy field as it is.
\<close>

definition exposed :: "pystr option \<Rightarrow> pystr option" where
  "exposed f = (if truthy f then Some (utf8_ignore (projr (b64decode (the f)))) else f)"

text \<open>
  A response whose stdout \<^verbatim>\<open>abc\<close> is not complete base64 (three data characters, no
  padding), and one whose stdout \<^verbatim>\<open>/0E=\<close> encodes the bytes FF 41 (not valid UTF-8) and
  whose stderr \<^verbatim>\<open>4pyT\<close> encodes E2 9C 93 (the character U+2713).
\<close>

definition unpadded_payload :: judge_payload where
  "unpadded_payload =
     \<lparr>p_status = Some [(py ''id'', JInt 3)], p_stdout = Some (py ''abc''), p_stderr = None,
      p_compile_output = None, p_time = None, p_memory = None\<rparr>"

definition invalid_utf8_payload :: judge_payload where
  "invalid_utf8_payload =
     \<lparr>p_status = Some [(py ''id'', JInt 3)], p_stdout = Some (py ''/0E=''),
      p_stderr = Some (py ''4pyT''), p_compile_output = Some [], p_time = None,
      p_memory = None\<rparr>"

section \<open>Auxiliary facts\<close>

lemma message_types_distinct:
  "py ''tab_switch'' \<noteq> py ''code_edit''" "py ''tab_switch'' \<noteq> py ''run_code''"
  "py ''tab_switch'' \<noteq> py ''submit_code''" "py ''tab_switch'' \<noteq> py ''paste_event''"
  "py ''paste_event'' \<noteq> py ''code_edit''" "py ''paste_event'' \<noteq> py ''run_code''"
  "py ''paste_event'' \<noteq> py ''submit_code''"
  by (simp_all add: py_def)

lemma session_one_connection:
  "active_connections session_one (py ''s1'') = Some fresh_connection"
  by (simp add: session_one_def connect_def empty_manager_def fresh_connection_def Let_def)

lemma session_one_sent: "sent session_one = []"
  by (simp add: session_one_def connect_def empty_manager_def Let_def)

lemma session_one_snapshots: "code_snapshots session_one (py ''s1'') = Some []"
  by (simp add: session_one_def connect_def empty_manager_def Let_def)

lemma tab_switch_step:
  assumes "active_connections m sid = Some c"
    and "msg_type msg = Some (py ''tab_switch'')"
  shows "handle_message env db now m sid msg =
     (let m1 = m\<lparr>active_connections :=
                   (active_connections m)(sid \<mapsto> c\<lparr>tab_switches := Suc (tab_switches c)\<rparr>)\<rparr>
      in if tab_switches c \<ge> 5
         then m1\<lparr>sent := sent m @ [(websocket c, tab_alert (Suc (tab_switches c)))]\<rparr>
         else m1)"
  using assms
  by (simp add: handle_message_def dispatch_def handle_tab_switch_def send_message_def
      Let_def message_types_distinct)

lemma tab_switch_process:
  assumes "active_connections m sid = Some c"
    and "\<forall>x \<in> set msgs. msg_type (snd x) = Some (py ''tab_switch'')"
  shows "active_connections (process env db m sid msgs) sid
           = Some (c\<lparr>tab_switches := tab_switches c + length msgs\<rparr>)
       \<and> sent (process env db m sid msgs)
           = sent m @ map (\<lambda>j. (websocket c, tab_alert j))
               (filter (\<lambda>j. 5 < j)
                  [Suc (tab_switches c) ..< Suc (tab_switches c + length msgs)])"
  using assms
proof (induction msgs arbitrary: m c)
  case Nil
  then show ?case by simp
next
  case (Cons x msgs)
  obtain now msg where x: "x = (now, msg)" by (cases x)
  let ?c1 = "c\<lparr>tab_switches := Suc (tab_switches c)\<rparr>"
  let ?m1 = "handle_message env db now m sid msg"
  have ty: "msg_type msg = Some (py ''tab_switch'')"
    using Cons.prems(2) x by simp
  have reg: "active_connections ?m1 sid = Some ?c1"
    using tab_switch_step[OF Cons.prems(1) ty, of env db now] by (simp add: Let_def)
  have snt: "sent ?m1 = sent m @
      (if 5 \<le> tab_switches c then [(websocket c, tab_alert (Suc (tab_switches c)))] else [])"
    using tab_switch_step[OF Cons.prems(1) ty, of env db now] by (simp add: Let_def)
  have rest: "\<forall>x \<in> set msgs. msg_type (snd x) = Some (py ''tab_switch'')"
    using Cons.prems(2) by simp
  define L where
    "L = [Suc (Suc (tab_switches c)) ..< Suc (Suc (tab_switches c) + length msgs)]"
  have up: "[Suc (tab_switches c) ..< Suc (tab_switches c + length (x # msgs))]
        = Suc (tab_switches c) # L"
    unfolding L_def by (subst upt_rec) simp
  have ih1: "active_connections (process env db ?m1 sid msgs) sid
           = Some (?c1\<lparr>tab_switches := tab_switches ?c1 + length msgs\<rparr>)"
    and ih2: "sent (process env db ?m1 sid msgs)
           = sent ?m1 @ map (\<lambda>j. (websocket ?c1, tab_alert j)) (filter (\<lambda>j. 5 < j) L)"
    using Cons.IH[OF reg rest] unfolding L_def by simp_all
  have a: "active_connections (process env db m sid (x # msgs)) sid
           = Some (c\<lparr>tab_switches := tab_switches c + length (x # msgs)\<rparr>)"
    unfolding x using ih1 by simp
  have b: "sent (process env db m sid (x # msgs))
           = sent m @ map (\<lambda>j. (websocket c, tab_alert j))
               (filter (\<lambda>j. 5 < j) (Suc (tab_switches c) # L))"
    unfolding x using ih2 snt by (simp add: Suc_le_eq less_Suc_eq_le)
  show ?case using a b unfolding up by blast
qed

lemma message_types_distinct_run:
  "py ''run_code'' \<noteq> py ''code_edit''" "py ''submit_code'' \<noteq> py ''code_edit''"
  "py ''submit_code'' \<noteq> py ''run_code''"
  by (simp_all add: py_def)

text \<open>
  While every poll returns a result that is not terminal, the loop of a run goes through
  all its attempts and ends with the variable \<open>result\<close> holding the last one fetched.
\<close>

lemma run_poll_pending:
  assumes "\<forall>j<n. \<exists>r. get_submission_result (fetch (k + j)) = Inr r
                     \<and> \<not> terminal (status_get_id (status r))"
  shows "run_poll fetch n k res =
     (Inr (if n = 0 then res
           else Some (projr (get_submission_result (fetch (k + n - 1))))), k + n)"
  using assms
proof (induction n arbitrary: k res)
  case 0
  then show ?case by simp
next
  case (Suc n)
  from Suc.prems[rule_format, of 0] obtain r where
    r: "get_submission_result (fetch k) = Inr r" "\<not> terminal (status_get_id (status r))"
    by auto
  have rest: "\<forall>j<n. \<exists>r. get_submission_result (fetch (Suc k + j)) = Inr r
                     \<and> \<not> terminal (status_get_id (status r))"
    using Suc.prems by (metis Suc_less_eq add_Suc_shift)
  show ?case
    using Suc.IH[OF rest, of "Some r"] r by (cases n) simp_all
qed

text \<open>As soon as the loop of a run has made one attempt, \<open>result\<close> is not \<^verbatim>\<open>None\<close>.\<close>

lemma run_poll_result_present:
  "fst (run_poll fetch (Suc n) k res) \<noteq> Inr None"
proof (induction n arbitrary: k res)
  case 0
  show ?case by (simp split: sum.splits)
next
  case (Suc n)
  show ?case
    using Suc[of "Suc k"] by (simp split: sum.splits)
qed

lemma code_edit_step:
  assumes "active_connections m sid = Some c"
    and "msg_type msg = Some (py ''code_edit'')"
    and "code_snapshots m sid = Some snaps"
  shows "code_snapshots (handle_message env db now m sid msg) sid
           = Some (if should_snapshot snaps (get_default (msg_code msg) []) now
                   then append_snapshot snaps (snapshot_of (now, msg)) else snaps)"
    and "active_connections (handle_message env db now m sid msg) sid
           = Some (c\<lparr>last_code := get_default (msg_code msg) [], last_activity := now\<rparr>)"
    and "sent (handle_message env db now m sid msg) = sent m @ [(websocket c, EditAck now)]"
  using assms
  by (simp_all add: handle_message_def dispatch_def handle_code_edit_def send_message_def
      Let_def snapshot_of_def)

lemma append_snapshot_drop:
  assumes "length snaps \<le> 20"
  shows "append_snapshot snaps s = drop (length (snaps @ [s]) - 20) (snaps @ [s])"
proof (cases "length snaps = 20")
  case True
  then have "snaps \<noteq> []" by auto
  then show ?thesis
    using True by (simp add: append_snapshot_def Let_def drop_Suc)
next
  case False
  with assms have "length snaps < 20" by simp
  then show ?thesis by (simp add: append_snapshot_def Let_def)
qed

lemma append_snapshot_length:
  "length snaps \<le> 20 \<Longrightarrow> length (append_snapshot snaps s) \<le> 20"
  by (simp add: append_snapshot_def Let_def)

text \<open>Keeping the last \<open>n\<close> entries, appending and keeping the last \<open>n\<close> again.\<close>

lemma drop_keep_last_append:
  "drop (length (drop (length xs - n) xs @ ys) - n) (drop (length xs - n) xs @ ys)
     = drop (length (xs @ ys) - n) (xs @ ys)"
proof (cases "length xs \<le> n")
  case True
  then show ?thesis by simp
next
  case False
  then have n: "n < length xs" by simp
  have "drop (length (drop (length xs - n) xs @ ys) - n) (drop (length xs - n) xs @ ys)
      = drop (length ys) (drop (length xs - n) xs @ ys)"
    using n by simp
  also have "\<dots> = drop (length ys) (drop (length xs - n) (xs @ ys))"
    using n by simp
  also have "\<dots> = drop (length (xs @ ys) - n) (xs @ ys)"
    using n by (simp add: add.commute)
  finally show ?thesis .
qed

text \<open>
  The stored list is always the last 20 of the snapshots it started with followed by those
  captured since, and the captured ones are edits of the sequence, in their order.
\<close>

lemma code_edit_process_fifo:
  assumes "active_connections m sid = Some c"
    and "code_snapshots m sid = Some snaps"
    and "length snaps \<le> 20"
    and "\<forall>x \<in> set msgs. msg_type (snd x) = Some (py ''code_edit'')"
  shows "\<exists>captured. subseq captured (map snapshot_of msgs)
           \<and> code_snapshots (process env db m sid msgs) sid
               = Some (drop (length (snaps @ captured) - 20) (snaps @ captured))"
  using assms
proof (induction msgs arbitrary: m c snaps)
  case Nil
  then have "subseq [] (map snapshot_of [])
      \<and> code_snapshots (process env db m sid []) sid
          = Some (drop (length (snaps @ []) - 20) (snaps @ []))"
    by simp
  then show ?case by blast
next
  case (Cons x msgs)
  obtain now msg where x: "x = (now, msg)" by (cases x)
  let ?m1 = "handle_message env db now m sid msg"
  let ?s = "snapshot_of (now, msg)"
  let ?snaps1 = "if should_snapshot snaps (get_default (msg_code msg) []) now
                 then append_snapshot snaps ?s else snaps"
  have ty: "msg_type msg = Some (py ''code_edit'')"
    using Cons.prems(4) x by simp
  have rest: "\<forall>x \<in> set msgs. msg_type (snd x) = Some (py ''code_edit'')"
    using Cons.prems(4) by simp
  note step = code_edit_step[OF Cons.prems(1) ty Cons.prems(2), of env db now]
  have len1: "length ?snaps1 \<le> 20"
    using Cons.prems(3) by (simp add: append_snapshot_length)
  from Cons.IH[OF step(2) step(1) len1 rest] obtain captured where
    cap: "subseq captured (map snapshot_of msgs)"
    and fin: "code_snapshots (process env db ?m1 sid msgs) sid
                = Some (drop (length (?snaps1 @ captured) - 20) (?snaps1 @ captured))"
    by blast
  show ?case
  proof (cases "should_snapshot snaps (get_default (msg_code msg) []) now")
    case True
    have "drop (length (?snaps1 @ captured) - 20) (?snaps1 @ captured)
        = drop (length (snaps @ ?s # captured) - 20) (snaps @ ?s # captured)"
      using True append_snapshot_drop[OF Cons.prems(3), of ?s]
        drop_keep_last_append[of "snaps @ [?s]" 20 captured]
      by simp
    then have "code_snapshots (process env db m sid (x # msgs)) sid
        = Some (drop (length (snaps @ ?s # captured) - 20) (snaps @ ?s # captured))"
      using fin x by simp
    moreover have "subseq (?s # captured) (map snapshot_of (x # msgs))"
      using cap x by simp
    ultimately show ?thesis by blast
  next
    case False
    then have "code_snapshots (process env db m sid (x # msgs)) sid
        = Some (drop (length (snaps @ captured) - 20) (snaps @ captured))"
      using fin x by simp
    moreover have "subseq captured (map snapshot_of (x # msgs))"
      using cap by (simp add: subseq_drop_many[of _ _ "[snapshot_of x]", simplified])
    ultimately show ?thesis by blast
  qed
qed

text \<open>While the clock does not go back, the stored timestamps stay in order.\<close>

lemma code_edit_process_sorted:
  assumes "active_connections m sid = Some c"
    and "code_snapshots m sid = Some snaps"
    and "length snaps \<le> 20"
    and "\<forall>x \<in> set msgs. msg_type (snd x) = Some (py ''code_edit'')"
    and "sorted (map snap_timestamp snaps @ map fst msgs)"
  shows "\<exists>snaps'. code_snapshots (process env db m sid msgs) sid = Some snaps'
           \<and> length snaps' \<le> 20 \<and> sorted (map snap_timestamp snaps')"
  using assms
proof (induction msgs arbitrary: m c snaps)
  case Nil
  then show ?case by simp
next
  case (Cons x msgs)
  obtain now msg where x: "x = (now, msg)" by (cases x)
  let ?m1 = "handle_message env db now m sid msg"
  let ?s = "snapshot_of (now, msg)"
  let ?snaps1 = "if should_snapshot snaps (get_default (msg_code msg) []) now
                 then append_snapshot snaps ?s else snaps"
  have ty: "msg_type msg = Some (py ''code_edit'')"
    using Cons.prems(4) x by simp
  have rest: "\<forall>x \<in> set msgs. msg_type (snd x) = Some (py ''code_edit'')"
    using Cons.prems(4) by simp
  note step = code_edit_step[OF Cons.prems(1) ty Cons.prems(2), of env db now]
  have len1: "length ?snaps1 \<le> 20"
    using Cons.prems(3) by (simp add: append_snapshot_length)
  define L where "L = snaps @ [?s]"
  have full: "sorted (map snap_timestamp L @ map fst msgs)"
    using Cons.prems(5) x by (simp add: snapshot_of_def L_def)
  have s1: "sorted (map snap_timestamp L)"
    and s2: "sorted (map fst msgs)"
    and s3: "\<forall>a \<in> set (map snap_timestamp L). \<forall>b \<in> set (map fst msgs). a \<le> b"
    using full unfolding sorted_append by blast+
  have dropped: "sorted (map snap_timestamp (drop k L) @ map fst msgs)" for k
  proof -
    have d1: "sorted (map snap_timestamp (drop k L))"
      using sorted_wrt_drop[OF s1, of k] by (simp add: drop_map)
    have d3: "\<forall>a \<in> set (map snap_timestamp (drop k L)). \<forall>b \<in> set (map fst msgs). a \<le> b"
      using s3 by (auto dest: in_set_dropD)
    show ?thesis
      unfolding sorted_append using d1 s2 d3 by blast
  qed
  have unchanged: "sorted (map snap_timestamp snaps @ map fst msgs)"
    using Cons.prems(5) x by (auto simp: sorted_append)
  have app: "append_snapshot snaps ?s = drop (length L - 20) L"
    unfolding L_def by (rule append_snapshot_drop[OF Cons.prems(3)])
  have clock1: "sorted (map snap_timestamp ?snaps1 @ map fst msgs)"
  proof (cases "should_snapshot snaps (get_default (msg_code msg) []) now")
    case True
    then have "?snaps1 = drop (length L - 20) L"
      using app by simp
    then show ?thesis
      using dropped[of "length L - 20"] by (simp only:)
  next
    case False
    then show ?thesis using unchanged by simp
  qed
  show ?case
    using Cons.IH[OF step(2) step(1) len1 rest clock1] x by simp
qed

text \<open>
  A run of the loop over the test cases that is not ended by an exception appends one
  entry per test case, in order, and counts the entries that passed.
\<close>

lemma run_tests_results:
  assumes "run_tests env src lang_id i tcs results passed calls = (calls', Inr (results', passed'))"
  shows "results' = results @ map (\<lambda>(j, tc). test_entry env src lang_id j tc) (enumerate i tcs)
       \<and> passed' = passed + length (filter tr_passed
                      (map (\<lambda>(j, tc). test_entry env src lang_id j tc) (enumerate i tcs)))"
  using assms
proof (induction tcs arbitrary: i results passed calls)
  case Nil
  then show ?case by simp
next
  case (Cons tc tcs)
  let ?req = "\<lparr>source_code = src, language_id = lang_id, stdin = get_default (tc_input tc) []\<rparr>"
  show ?case
  proof (cases "submit_code (judge_post env i ?req)")
    case (Inl e)
    then show ?thesis using Cons.prems by (simp add: Let_def)
  next
    case (Inr token)
    obtain res polls where poll: "test_poll (judge_get env i token) 30 0 None = (res, polls)"
      by (cases "test_poll (judge_get env i token) 30 0 None")
    have entry: "test_entry env src lang_id i tc
        = record_test i (strip (get_default (tc_expected_output tc) [])) res"
      using Inr poll by (simp add: test_entry_def polled_result_def)
    have "run_tests env src lang_id (Suc i) tcs
            (results @ [test_entry env src lang_id i tc])
            (if tr_passed (test_entry env src lang_id i tc) then passed + 1 else passed)
            (calls @ POST # replicate polls GET)
          = (calls', Inr (results', passed'))"
      using Cons.prems Inr poll entry by (simp add: Let_def)
    from Cons.IH[OF this] show ?thesis by simp
  qed
qed


lemma run_code_tests_report:
  assumes "run_code_tests env (Some t) src language = (calls, Inr report)"
  shows "\<exists>lang_id. map_of LANGUAGE_MAP (lower language) = Some lang_id
           \<and> test_results report
               = map (\<lambda>(j, tc). test_entry env src lang_id j tc) (enumerate 0 (test_cases t))
           \<and> passed_tests report = length (filter tr_passed (test_results report))
           \<and> total_tests report = length (test_cases t)
           \<and> score report =
               (if length (test_cases t) > 0
                then (of_nat (passed_tests report) / of_nat (total_tests report)) * 100
                else 0)"
proof (cases "map_of LANGUAGE_MAP (lower language)")
  case None
  then show ?thesis using assms by (simp add: run_code_tests_def)
next
  case (Some lang_id)
  obtain calls' outcome where
    run: "run_tests env src lang_id 0 (test_cases t) [] 0 [] = (calls', outcome)"
    by (cases "run_tests env src lang_id 0 (test_cases t) [] 0 []")
  show ?thesis
  proof (cases outcome)
    case (Inl e)
    then show ?thesis using assms Some run by (simp add: run_code_tests_def Let_def)
  next
    case (Inr acc)
    obtain results passed where acc: "acc = (results, passed)" by (cases acc)
    have rep: "report =
        \<lparr>score = (if length (test_cases t) > 0
                   then (of_nat passed / of_nat (length (test_cases t))) * 100 else 0),
         passed_tests = passed, total_tests = length (test_cases t),
         test_results = results\<rparr>"
      using assms Some run Inr acc by (simp add: run_code_tests_def Let_def)
    from run_tests_results[OF run[unfolded Inr acc]]
    have res: "results
        = map (\<lambda>(j, tc). test_entry env src lang_id j tc) (enumerate 0 (test_cases t))"
      and cnt: "passed = length (filter tr_passed results)"
      by simp_all
    show ?thesis
      using Some rep res cnt by simp
  qed
qed





lemma grading_strips: "strip [54] = [54]" "strip [32, 49, 32] = [49]" "strip [48] = [48]"
  by (simp_all add: strip_def is_space_def)


text \<open>
  While every poll returns a result that is not terminal, the loop of a test case goes
  through all its attempts and ends with \<open>result\<close> holding the last one fetched.
\<close>

lemma test_poll_pending:
  assumes "\<forall>j<n. \<exists>r. get_submission_result (fetch (k + j)) = Inr r
                     \<and> \<not> terminal (status_get_id (status r))"
  shows "test_poll fetch n k res =
     (if n = 0 then res
      else Some (projr (get_submission_result (fetch (k + n - 1)))), k + n)"
  using assms
proof (induction n arbitrary: k res)
  case 0
  then show ?case by simp
next
  case (Suc n)
  from Suc.prems[rule_format, of 0] obtain r where
    r: "get_submission_result (fetch k) = Inr r" "\<not> terminal (status_get_id (status r))"
    by auto
  have rest: "\<forall>j<n. \<exists>r. get_submission_result (fetch (Suc k + j)) = Inr r
                     \<and> \<not> terminal (status_get_id (status r))"
    using Suc.prems by (metis Suc_less_eq add_Suc_shift)
  show ?case
    using Suc.IH[OF rest, of "Some r"] r by (cases n) simp_all
qed

text \<open>Only when every poll raised is \<open>result\<close> still \<^verbatim>\<open>None\<close> after the loop.\<close>

lemma test_poll_all_raised:
  assumes "\<forall>j<n. \<exists>e. get_submission_result (fetch (k + j)) = Inl e"
  shows "test_poll fetch n k res = (res, k + n)"
  using assms
proof (induction n arbitrary: k)
  case 0
  then show ?case by simp
next
  case (Suc n)
  from Suc.prems[rule_format, of 0] obtain e where
    e: "get_submission_result (fetch k) = Inl e"
    by auto
  have rest: "\<forall>j<n. \<exists>e. get_submission_result (fetch (Suc k + j)) = Inl e"
    using Suc.prems by (metis Suc_less_eq add_Suc_shift)
  show ?case
    using Suc.IH[OF rest] e by simp
qed

lemma busy_fetch:
  "get_submission_result (judge_get busy_env i token k)
     = Inr \<lparr>status = [(py ''id'', JInt 1)], stdout = None, stderr = None,
            compile_output = None, time = None, memory = None\<rparr>"
  by (simp add: busy_env_def get_submission_result_def queued_payload_def decode_field_def)

lemma busy_pending:
  "\<forall>k<n. \<exists>r. get_submission_result (judge_get busy_env i token k) = Inr r
              \<and> \<not> terminal (status_get_id (status r))"
  by (simp add: busy_fetch terminal_def status_get_id_def)

lemma busy_submit: "submit_code (judge_post busy_env i request) = Inr (py ''tok'')"
  by (simp add: busy_env_def submit_code_def py_def)

lemma busy_poll:
  "test_poll (judge_get busy_env i token) 30 0 None
     = (Some \<lparr>status = [(py ''id'', JInt 1)], stdout = None, stderr = None,
              compile_output = None, time = None, memory = None\<rparr>, 30)"
  using test_poll_pending[of 30 "judge_get busy_env i token" 0 None] busy_pending[of 30 i token]
  by (simp add: busy_fetch)

lemma busy_run:
  "run_code_tests busy_env (Some two_tests) (py ''print(6)'') (py ''python'')
     = (POST # replicate 30 GET @ POST # replicate 30 GET, Inr pending_report)"
  apply (simp add: run_code_tests_def two_tests_def LANGUAGE_MAP_def lower_def lower_cp_def
      py_def[of "''python''"])
  apply (simp add: busy_submit busy_poll record_test_def status_get_id_def or_empty_def
      Let_def pending_report_def)
  apply (simp add: py_def grading_strips strip_def is_space_def)
  done

lemma a2b_base64_errors:
  "a2b_base64 cs quad_pos leftchar pads out = Inl e \<Longrightarrow>
     e = InvalidDataCount \<or> e = IncorrectPadding"
  by (induction cs quad_pos leftchar pads out rule: a2b_base64.induct)
    (auto split: if_splits option.splits)

lemma b64decode_errors:
  "b64decode s = Inl e \<Longrightarrow> e \<in> {AsciiValueError, IncorrectPadding, InvalidDataCount}"
  using a2b_base64_errors[of s 0 0 0 "[]" e]
  by (auto simp: b64decode_def split: if_splits)

lemma decode_field_accepted:
  "truthy f \<longrightarrow> (\<exists>bs. b64decode (the f) = Inr bs) \<Longrightarrow> decode_field f = Inr (exposed f)"
  by (auto simp: decode_field_def exposed_def)

lemma decode_field_rejected:
  assumes "\<not> (truthy f \<longrightarrow> (\<exists>bs. b64decode (the f) = Inr bs))"
  shows "\<exists>e \<in> {AsciiValueError, IncorrectPadding, InvalidDataCount}. decode_field f = Inl e"
proof -
  from assms have t: "truthy f" and n: "\<forall>bs. b64decode (the f) \<noteq> Inr bs" by auto
  then obtain e where e: "b64decode (the f) = Inl e"
    by (cases "b64decode (the f)") auto
  then show ?thesis
    using t b64decode_errors[OF e] by (auto simp: decode_field_def)
qed

lemma decode_field_cases:
  "decode_field f = Inr (exposed f)
   \<or> (\<exists>e \<in> {AsciiValueError, IncorrectPadding, InvalidDataCount}. decode_field f = Inl e)"
  using decode_field_accepted[of f] decode_field_rejected[of f] by blast

section \<open>The claims\<close>

subsection \<open>Tab switches\<close>

text \<open>
  Claim C6. On a session whose tab-switch counter is zero, after any number of
  \<^verbatim>\<open>tab_switch\<close> messages the counter equals the number of messages (each one adds
  one), and the events sent are exactly one alert for every message whose number is
  above 5, in order, each with the count it was sent at: none for the first five, one for
  the sixth and one for every later message. The alert has the kind
  \<^verbatim>\<open>excessive_tab_switching\<close>, the severity \<^verbatim>\<open>high\<close> and the count in its message.
\<close>

theorem tab_switch_alerts:
  assumes "active_connections m sid = Some c"
    and "tab_switches c = 0"
    and "\<forall>x \<in> set msgs. msg_type (snd x) = Some (py ''tab_switch'')"
  shows "active_connections (process env db m sid msgs) sid
           = Some (c\<lparr>tab_switches := length msgs\<rparr>)
       \<and> sent (process env db m sid msgs)
           = sent m @ map (\<lambda>j. (websocket c, tab_alert j))
               (filter (\<lambda>j. 5 < j) [1 ..< Suc (length msgs)])
       \<and> (\<forall>j. tab_alert j =
             ProctorAlert (py ''excessive_tab_switching'')
               (py ''Multiple tab switches detected ('' @ str_nat j @ py '')'')
               (py ''high''))"
  using tab_switch_process[OF assms(1) assms(3), of env db] assms(2)
  by (simp add: tab_alert_def)

theorem tab_switch_alerts_witness:
  "active_connections session_one (py ''s1'') = Some fresh_connection
   \<and> tab_switches fresh_connection = 0
   \<and> sent (process busy_env no_tasks session_one (py ''s1'')
        (replicate 7 (0, msg_of ''tab_switch'')))
      = [(1, tab_alert 6), (1, tab_alert 7)]
   \<and> sent (process busy_env no_tasks session_one (py ''s1'')
        (replicate 5 (0, msg_of ''tab_switch'')))
      = []"
proof -
  have h2: "tab_switches fresh_connection = 0"
    by (simp add: fresh_connection_def)
  have h3: "\<forall>x \<in> set (replicate n (0, msg_of ''tab_switch'')).
      msg_type (snd x) = Some (py ''tab_switch'')" for n
    by (simp add: msg_of_def)
  have f7: "filter (\<lambda>j. 5 < j) [1 ..< Suc (length (replicate 7 (0::int, msg_of ''tab_switch'')))]
      = [6, 7::nat]"
    by (simp add: upt_rec)
  have f5: "filter (\<lambda>j. 5 < j) [1 ..< Suc (length (replicate 5 (0::int, msg_of ''tab_switch'')))]
      = ([]::nat list)"
    by (simp add: upt_rec)
  show ?thesis
    using tab_switch_alerts[OF session_one_connection h2 h3[of 7],
        where env = busy_env and db = no_tasks]
      tab_switch_alerts[OF session_one_connection h2 h3[of 5],
        where env = busy_env and db = no_tasks]
    unfolding f7 f5
    by (simp add: session_one_connection session_one_sent h2 fresh_connection_def)
qed

subsection \<open>Paste events\<close>

text \<open>
  Claim C7. For a \<^verbatim>\<open>paste_event\<close> message on a registered session, the connection's
  paste list gains one record at its end, holding the first 200 characters of the content,
  the handler's timestamp and the full length of the content; nothing else of the
  connection changes; and the events sent grow by the \<^verbatim>\<open>large_paste\<close> alert of severity
  \<^verbatim>\<open>medium\<close> exactly when the content is longer than 100 characters.
\<close>

theorem paste_event_recorded:
  assumes "active_connections m sid = Some c"
    and "msg_type msg = Some (py ''paste_event'')"
  shows "active_connections (handle_message env db now m sid msg) sid
           = Some (c\<lparr>paste_events := paste_events c @
                [\<lparr>paste_content = take 200 (get_default (msg_content msg) []),
                  paste_timestamp = now,
                  paste_length = length (get_default (msg_content msg) [])\<rparr>]\<rparr>)
       \<and> sent (handle_message env db now m sid msg)
           = sent m @ (if length (get_default (msg_content msg) []) > 100
                       then [(websocket c, paste_alert)] else [])
       \<and> paste_alert =
           ProctorAlert (py ''large_paste'') (py ''Large code paste detected'') (py ''medium'')"
  using assms
  by (simp add: handle_message_def dispatch_def handle_paste_event_def send_message_def
      Let_def message_types_distinct paste_alert_def)

theorem paste_event_recorded_witness:
  "active_connections session_one (py ''s1'') = Some fresh_connection
   \<and> sent (handle_message busy_env no_tasks 7 session_one (py ''s1'')
        ((msg_of ''paste_event'')\<lparr>msg_content := Some (replicate 101 97)\<rparr>))
      = [(1, paste_alert)]
   \<and> sent (handle_message busy_env no_tasks 7 session_one (py ''s1'')
        ((msg_of ''paste_event'')\<lparr>msg_content := Some (replicate 100 97)\<rparr>))
      = []
   \<and> map_option paste_events
        (active_connections (handle_message busy_env no_tasks 7 session_one (py ''s1'')
           ((msg_of ''paste_event'')\<lparr>msg_content := Some (replicate 250 97)\<rparr>)) (py ''s1''))
      = Some [\<lparr>paste_content = replicate 200 97, paste_timestamp = 7, paste_length = 250\<rparr>]"
proof -
  have ty: "msg_type ((msg_of ''paste_event'')\<lparr>msg_content := Some x\<rparr>)
      = Some (py ''paste_event'')" for x
    by (simp add: msg_of_def)
  show ?thesis
    using paste_event_recorded[OF session_one_connection ty[of "replicate 101 97"],
        where env = busy_env and db = no_tasks and now = 7]
      paste_event_recorded[OF session_one_connection ty[of "replicate 100 97"],
        where env = busy_env and db = no_tasks and now = 7]
      paste_event_recorded[OF session_one_connection ty[of "replicate 250 97"],
        where env = busy_env and db = no_tasks and now = 7]
    by (simp add: session_one_connection session_one_sent fresh_connection_def)
qed

subsection \<open>Connecting and disconnecting\<close>

text \<open>
  Claim C9. \<^verbatim>\<open>disconnect\<close> removes the session's connection from the registry, leaves
  the connections of the other sessions and the whole snapshot store as they were.
  \<^verbatim>\<open>connect\<close>, on any manager (hence also after a disconnect, and also over a live
  connection of the same session), puts a new connection in the session's place, keeps the
  session's snapshot list when there is one, creates an empty list only when there is
  none, and leaves the snapshot lists of the other sessions as they were.
\<close>

theorem disconnect_connect_snapshots:
  "active_connections (disconnect m sid) sid = None
   \<and> (\<forall>s. s \<noteq> sid \<longrightarrow> active_connections (disconnect m sid) s = active_connections m s)
   \<and> code_snapshots (disconnect m sid) = code_snapshots m
   \<and> active_connections (connect m ws sid tid now) sid
       = Some \<lparr>websocket = ws, task_id = tid, last_code = [], last_activity = now,
               paste_events = [], tab_switches = 0\<rparr>
   \<and> code_snapshots (connect m ws sid tid now) sid
       = Some (case code_snapshots m sid of None \<Rightarrow> [] | Some snapshots \<Rightarrow> snapshots)
   \<and> (\<forall>s. s \<noteq> sid \<longrightarrow> code_snapshots (connect m ws sid tid now) s = code_snapshots m s)
   \<and> code_snapshots (connect (disconnect m sid) ws sid tid now) sid
       = Some (case code_snapshots m sid of None \<Rightarrow> [] | Some snapshots \<Rightarrow> snapshots)"
  by (auto simp: disconnect_def connect_def Let_def split: option.splits)

text \<open>
  After an edit, session \<^verbatim>\<open>s1\<close> holds one snapshot; it survives a disconnect and a
  reconnect on another websocket.
\<close>

theorem disconnect_connect_snapshots_witness:
  "code_snapshots
     (connect
        (disconnect
           (handle_message busy_env no_tasks 3 session_one (py ''s1'')
              ((msg_of ''code_edit'')\<lparr>msg_code := Some (py ''x = 1'')\<rparr>))
           (py ''s1''))
        2 (py ''s1'') (py ''t1'') 9)
     (py ''s1'')
   = Some [\<lparr>snap_code = py ''x = 1'', snap_timestamp = 3, snap_cursor = py ''{}''\<rparr>]
   \<and> active_connections
       (disconnect
          (handle_message busy_env no_tasks 3 session_one (py ''s1'')
             ((msg_of ''code_edit'')\<lparr>msg_code := Some (py ''x = 1'')\<rparr>))
          (py ''s1''))
       (py ''s1'')
     = None"
proof -
  let ?m = "handle_message busy_env no_tasks 3 session_one (py ''s1'')
              ((msg_of ''code_edit'')\<lparr>msg_code := Some (py ''x = 1'')\<rparr>)"
  have snaps: "code_snapshots ?m (py ''s1'')
      = Some [\<lparr>snap_code = py ''x = 1'', snap_timestamp = 3, snap_cursor = py ''{}''\<rparr>]"
    by (simp add: handle_message_def dispatch_def handle_code_edit_def send_message_def
        session_one_connection session_one_snapshots msg_of_def should_snapshot_def
        append_snapshot_def Let_def)
  show ?thesis
    using disconnect_connect_snapshots[where m = ?m and sid = "py ''s1''" and ws = 2
        and tid = "py ''t1''" and now = 9] snaps
    by simp
qed

subsection \<open>Messages for a session that is not registered\<close>

text \<open>
  Claim C10. When the session identifier of a message is not in the registry,
  \<^verbatim>\<open>handle_message\<close> returns the manager as it was: no connection and no snapshot list
  changes, no event is sent and no request goes to the judge. \<^verbatim>\<open>send_message\<close> for such a
  session leaves the manager as it was too.
\<close>

theorem unregistered_session_noop:
  assumes "active_connections m sid = None"
  shows "handle_message env db now m sid msg = m \<and> send_message m sid ev = m"
  using assms by (simp add: handle_message_def send_message_def)

theorem unregistered_session_noop_witness:
  "active_connections session_one (py ''s2'') = None
   \<and> handle_message busy_env no_tasks 4 session_one (py ''s2'') (msg_of ''run_code'')
       = session_one
   \<and> send_message session_one (py ''s2'') (EditAck 4) = session_one"
proof -
  have h: "active_connections session_one (py ''s2'') = None"
    by (simp add: session_one_def connect_def empty_manager_def Let_def py_def)
  show ?thesis
    using unregistered_session_noop[OF h, where env = busy_env and db = no_tasks and now = 4
        and msg = "msg_of ''run_code''" and ev = "EditAck 4"] h
    by simp
qed

subsection \<open>A run whose polls never see a terminal status\<close>

text \<open>
  Claim C1 says that a run whose 15 polls all see a status that is in progress ends with
  a \<^verbatim>\<open>run_result\<close> of \<^verbatim>\<open>success: False\<close> and the error \<^verbatim>\<open>Execution timeout\<close>, after
  exactly 15 fetches. The 15 fetches are made, but the event is another one: the loop
  leaves the last result fetched in \<open>result\<close>, the test \<^verbatim>\<open>if result:\<close> succeeds, and the
  client receives \<^verbatim>\<open>success: True\<close> with the fields of that unfinished result. For a
  registered session, a supported language and an accepted submission:
\<close>

theorem run_code_pending_is_reported_as_success:
  assumes "active_connections m sid = Some c"
    and "msg_type msg = Some (py ''run_code'')"
    and "map_of language_map (lower (get_default (msg_language msg) (py ''python'')))
           = Some lang_id"
    and "submit_code (judge_post env 0
           \<lparr>source_code = get_default (msg_code msg) [], language_id = lang_id,
            stdin = get_default (msg_input msg) []\<rparr>) = Inr token"
    and "\<forall>k<15. \<exists>r. get_submission_result (judge_get env 0 token k) = Inr r
                     \<and> \<not> terminal (status_get_id (status r))"
  shows "\<exists>r. get_submission_result (judge_get env 0 token 14) = Inr r
           \<and> sent (handle_message env db now m sid msg)
               = sent m @ [(websocket c,
                   RunResult (stdout r) (stderr r) (time r) (memory r) (status r))]
           \<and> http_log (handle_message env db now m sid msg)
               = http_log m @ POST # replicate 15 GET"
proof -
  have "(14::nat) < 15" by simp
  with assms(5) obtain r where r: "get_submission_result (judge_get env 0 token 14) = Inr r"
    by blast
  have poll: "run_poll (judge_get env 0 token) 15 0 None = (Inr (Some r), 15)"
    using run_poll_pending[of 15 "judge_get env 0 token" 0 None] assms(5) r by simp
  show ?thesis
    using assms(1-4) r poll
    by (simp add: handle_message_def dispatch_def handle_run_code_def send_message_def
        Let_def message_types_distinct_run)
qed

text \<open>The judge that answers every poll with \<^verbatim>\<open>{"id": 1}\<close>, on a fresh session.\<close>

theorem run_code_pending_is_reported_as_success_witness:
  "sent (handle_message busy_env no_tasks 0 session_one (py ''s1'') (msg_of ''run_code''))
     = [(1, RunResult None None None None [(py ''id'', JInt 1)])]
   \<and> http_log (handle_message busy_env no_tasks 0 session_one (py ''s1'') (msg_of ''run_code''))
     = POST # replicate 15 GET"
proof -
  have ty: "msg_type (msg_of ''run_code'') = Some (py ''run_code'')"
    by (simp add: msg_of_def)
  have lang: "map_of language_map
      (lower (get_default (msg_language (msg_of ''run_code'')) (py ''python''))) = Some 71"
    by (simp add: msg_of_def language_map_def lower_def lower_cp_def py_def)
  have sub: "submit_code (judge_post busy_env 0
       \<lparr>source_code = get_default (msg_code (msg_of ''run_code'')) [], language_id = 71,
        stdin = get_default (msg_input (msg_of ''run_code'')) []\<rparr>) = Inr (py ''tok'')"
    by (simp add: busy_env_def submit_code_def py_def)
  have fetch: "get_submission_result (judge_get busy_env 0 (py ''tok'') k)
      = Inr \<lparr>status = [(py ''id'', JInt 1)], stdout = None, stderr = None,
             compile_output = None, time = None, memory = None\<rparr>" for k
    by (simp add: busy_env_def get_submission_result_def queued_payload_def decode_field_def)
  have pending: "\<forall>k<15. \<exists>r. get_submission_result (judge_get busy_env 0 (py ''tok'') k) = Inr r
                     \<and> \<not> terminal (status_get_id (status r))"
    by (simp add: fetch terminal_def status_get_id_def)
  show ?thesis
    using run_code_pending_is_reported_as_success[OF session_one_connection ty lang sub pending,
        where db = no_tasks and now = 0]
    by (simp add: fetch session_one_sent fresh_connection_def session_one_def connect_def
        empty_manager_def Let_def)
qed

subsection \<open>The snapshot list\<close>

text \<open>
  Claim C5. Take a registered session whose snapshot list has at most 20 entries (it is
  empty after the first connect), any sequence of \<^verbatim>\<open>code_edit\<close> messages for it, and
  clock readings that do not go back: the stored timestamps followed by the readings of
  the handlers are in non-decreasing order. Then after the sequence the snapshot list has
  at most 20 entries and its timestamps are in non-decreasing order; and the list is the
  last 20 entries of the old list followed by the snapshots captured since, which are
  edits of the sequence in their order: whenever the cap is exceeded it is the oldest
  entry that has gone.
\<close>

theorem snapshot_list_capped_ordered_fifo:
  assumes "active_connections m sid = Some c"
    and "code_snapshots m sid = Some snaps"
    and "length snaps \<le> 20"
    and "\<forall>x \<in> set msgs. msg_type (snd x) = Some (py ''code_edit'')"
    and "sorted (map snap_timestamp snaps @ map fst msgs)"
  shows "\<exists>snaps' captured.
           code_snapshots (process env db m sid msgs) sid = Some snaps'
           \<and> length snaps' \<le> 20
           \<and> sorted (map snap_timestamp snaps')
           \<and> subseq captured (map snapshot_of msgs)
           \<and> snaps' = drop (length (snaps @ captured) - 20) (snaps @ captured)"
proof -
  from code_edit_process_sorted[OF assms, of env db] obtain snaps' where
    a: "code_snapshots (process env db m sid msgs) sid = Some snaps'"
      "length snaps' \<le> 20" "sorted (map snap_timestamp snaps')"
    by blast
  from code_edit_process_fifo[OF assms(1-4), of env db] obtain captured where
    b: "subseq captured (map snapshot_of msgs)"
      "code_snapshots (process env db m sid msgs) sid
         = Some (drop (length (snaps @ captured) - 20) (snaps @ captured))"
    by blast
  from a(1) b(2) have "snaps' = drop (length (snaps @ captured) - 20) (snaps @ captured)"
    by simp
  with a b(1) show ?thesis by blast
qed

text \<open>
  Twenty-two edits, 31 seconds apart, on a fresh session: each one is captured, and the
  list ends with the last twenty, the two oldest gone.
\<close>

theorem snapshot_list_capped_ordered_fifo_witness:
  "active_connections session_one (py ''s1'') = Some fresh_connection
   \<and> code_snapshots session_one (py ''s1'') = Some []
   \<and> sorted (map snap_timestamp [] @ map fst (spaced_edits 22))
   \<and> (\<exists>snaps' captured.
         code_snapshots (process busy_env no_tasks session_one (py ''s1'') (spaced_edits 22))
           (py ''s1'') = Some snaps'
         \<and> length snaps' \<le> 20
         \<and> sorted (map snap_timestamp snaps')
         \<and> subseq captured (map snapshot_of (spaced_edits 22))
         \<and> snaps' = drop (length ([] @ captured) - 20) ([] @ captured))
   \<and> map_option (map snap_timestamp)
        (code_snapshots (process busy_env no_tasks session_one (py ''s1'') (spaced_edits 22))
           (py ''s1''))
      = Some (map (\<lambda>i. int i * 31000000) [2..<22])"
proof -
  have h3: "length ([]::snapshot list) \<le> 20" by simp
  have h4: "\<forall>x \<in> set (spaced_edits 22). msg_type (snd x) = Some (py ''code_edit'')"
    by (simp add: spaced_edits_def edit_msg_def msg_of_def)
  have h5: "sorted (map snap_timestamp [] @ map fst (spaced_edits 22))"
    by code_simp
  have ev: "map_option (map snap_timestamp)
        (code_snapshots (process busy_env no_tasks session_one (py ''s1'') (spaced_edits 22))
           (py ''s1''))
      = Some (map (\<lambda>i. int i * 31000000) [2..<22])"
    by code_simp
  show ?thesis
    using snapshot_list_capped_ordered_fifo[OF session_one_connection session_one_snapshots
        h3 h4 h5, where env = busy_env and db = no_tasks]
      session_one_connection session_one_snapshots h5 ev
    by blast
qed

subsection \<open>The snapshot policy at its thresholds\<close>

text \<open>
  Claim C2 says that an edit is captured if and only if the list is empty, or the code is
  at least 50 characters longer than the last snapshot's, or at least 30 seconds have
  passed since the last snapshot. The first edit is captured, as the claim says; but the
  two comparisons of the source are strict, against its own comments (\<^verbatim>\<open>50+ char change\<close>,
  \<^verbatim>\<open>30+ seconds\<close>). With one snapshot of ten characters taken at time 0: an edit of
  sixty characters one second later (exactly 50 more) is not captured, nor is an edit of
  the same ten characters exactly 30 seconds later; with 51 characters more, or one
  microsecond later than 30 seconds, the edit is captured.
\<close>

theorem snapshot_thresholds_are_strict:
  "code_snapshots edited_once (py ''s1'')
     = Some [\<lparr>snap_code = replicate 10 97, snap_timestamp = 0, snap_cursor = py ''{}''\<rparr>]
   \<and> code_snapshots
       (handle_message busy_env no_tasks 1000000 edited_once (py ''s1'')
          (edit_msg (replicate 60 97))) (py ''s1'')
     = Some [\<lparr>snap_code = replicate 10 97, snap_timestamp = 0, snap_cursor = py ''{}''\<rparr>]
   \<and> code_snapshots
       (handle_message busy_env no_tasks 30000000 edited_once (py ''s1'')
          (edit_msg (replicate 10 97))) (py ''s1'')
     = Some [\<lparr>snap_code = replicate 10 97, snap_timestamp = 0, snap_cursor = py ''{}''\<rparr>]
   \<and> code_snapshots
       (handle_message busy_env no_tasks 1000000 edited_once (py ''s1'')
          (edit_msg (replicate 61 97))) (py ''s1'')
     = Some [\<lparr>snap_code = replicate 10 97, snap_timestamp = 0, snap_cursor = py ''{}''\<rparr>,
             \<lparr>snap_code = replicate 61 97, snap_timestamp = 1000000,
              snap_cursor = py ''{}''\<rparr>]
   \<and> code_snapshots
       (handle_message busy_env no_tasks 30000001 edited_once (py ''s1'')
          (edit_msg (replicate 10 97))) (py ''s1'')
     = Some [\<lparr>snap_code = replicate 10 97, snap_timestamp = 0, snap_cursor = py ''{}''\<rparr>,
             \<lparr>snap_code = replicate 10 97, snap_timestamp = 30000001,
              snap_cursor = py ''{}''\<rparr>]"
  by code_simp

subsection \<open>Passing, counting and scoring in the Test Runner\<close>



subsection \<open>A test case whose polls never see a terminal status\<close>

text \<open>
  Claim C3 says that a test case whose 30 polls never yield a terminal result is recorded
  as failed with the error \<^verbatim>\<open>Execution timeout\<close>, and that the remaining test cases
  are still run. The remaining test cases are run, and the test case is recorded as
  failed; but when the polls return results that are still in progress, the entry is not
  the timeout entry: the loop leaves the last result fetched in \<open>result\<close>, the test
  \<^verbatim>\<open>if not result:\<close> fails, and the entry is built as for an execution error, with the
  stderr or the compile output of that unfinished result, or \<^verbatim>\<open>Unknown error\<close>, as its
  error. (The timeout entry is written only when every one of the 30 fetches raised.)
\<close>

theorem pending_test_case_is_recorded_as_error:
  assumes "run_code_tests env (Some t) src language = (calls, Inr report)"
    and "map_of LANGUAGE_MAP (lower language) = Some lang_id"
    and "i < length (test_cases t)"
    and "submit_code (judge_post env i
           \<lparr>source_code = src, language_id = lang_id,
            stdin = get_default (tc_input (test_cases t ! i)) []\<rparr>) = Inr token"
    and "\<forall>k<30. \<exists>r. get_submission_result (judge_get env i token k) = Inr r
                     \<and> \<not> terminal (status_get_id (status r))"
  shows "\<exists>r. get_submission_result (judge_get env i token 29) = Inr r
           \<and> test_results report ! i =
               \<lparr>tr_test_case = i + 1, tr_passed = False,
                tr_error = Some (if truthy (stderr r) then the (stderr r)
                                 else if truthy (compile_output r) then the (compile_output r)
                                 else py ''Unknown error''),
                tr_expected = strip (get_default (tc_expected_output (test_cases t ! i)) []),
                tr_actual = Some (strip (or_empty (stdout r))),
                tr_execution_time = None, tr_memory_used = None\<rparr>
           \<and> length (test_results report) = length (test_cases t)"
proof -
  have "(29::nat) < 30" by simp
  with assms(5) obtain r where
    r: "get_submission_result (judge_get env i token 29) = Inr r"
      "\<not> terminal (status_get_id (status r))"
    by blast
  have poll: "test_poll (judge_get env i token) 30 0 None = (Some r, 30)"
    using test_poll_pending[of 30 "judge_get env i token" 0 None] assms(5) r(1) by simp
  have polled: "polled_result env src lang_id i (test_cases t ! i) = Some r"
    using assms(4) poll by (simp add: polled_result_def)
  from run_code_tests_report[OF assms(1)] assms(2)
  have res: "test_results report
      = map (\<lambda>(j, tc). test_entry env src lang_id j tc) (enumerate 0 (test_cases t))"
    by auto
  have nth: "test_results report ! i = test_entry env src lang_id i (test_cases t ! i)"
    using res assms(3) by (simp add: nth_enumerate_eq)
  have not3: "status_get_id (status r) \<noteq> JInt 3"
    using r(2) by (auto simp: terminal_def)
  have entry: "test_entry env src lang_id i (test_cases t ! i) =
      \<lparr>tr_test_case = i + 1, tr_passed = False,
       tr_error = Some (if truthy (stderr r) then the (stderr r)
                        else if truthy (compile_output r) then the (compile_output r)
                        else py ''Unknown error''),
       tr_expected = strip (get_default (tc_expected_output (test_cases t ! i)) []),
       tr_actual = Some (strip (or_empty (stdout r))),
       tr_execution_time = None, tr_memory_used = None\<rparr>"
    using polled not3 by (simp add: test_entry_def record_test_def Let_def)
  have len: "length (test_results report) = length (test_cases t)"
    using res by simp
  show ?thesis
    using r(1) nth entry len by simp
qed

text \<open>
  The judge whose polls always answer \<^verbatim>\<open>{"id": 1}\<close>, on the task with two test cases:
  both are submitted and polled 30 times, and both entries carry \<^verbatim>\<open>Unknown error\<close>.
\<close>

theorem pending_test_case_is_recorded_as_error_witness:
  "run_code_tests busy_env (Some two_tests) (py ''print(6)'') (py ''python'')
     = (POST # replicate 30 GET @ POST # replicate 30 GET, Inr pending_report)
   \<and> map tr_error (test_results pending_report)
       = [Some (py ''Unknown error''), Some (py ''Unknown error'')]
   \<and> (\<exists>r. get_submission_result (judge_get busy_env 0 (py ''tok'') 29) = Inr r
         \<and> test_results pending_report ! 0 =
             \<lparr>tr_test_case = 0 + 1, tr_passed = False,
              tr_error = Some (if truthy (stderr r) then the (stderr r)
                               else if truthy (compile_output r) then the (compile_output r)
                               else py ''Unknown error''),
              tr_expected = strip (get_default (tc_expected_output (test_cases two_tests ! 0)) []),
              tr_actual = Some (strip (or_empty (stdout r))),
              tr_execution_time = None, tr_memory_used = None\<rparr>
         \<and> length (test_results pending_report) = length (test_cases two_tests))"
proof -
  have lang: "map_of LANGUAGE_MAP (lower (py ''python'')) = Some 71"
    by (simp add: LANGUAGE_MAP_def lower_def lower_cp_def py_def)
  have i: "0 < length (test_cases two_tests)"
    by (simp add: two_tests_def)
  have errs: "map tr_error (test_results pending_report)
       = [Some (py ''Unknown error''), Some (py ''Unknown error'')]"
    by (simp add: pending_report_def)
  show ?thesis
    using pending_test_case_is_recorded_as_error[OF busy_run lang i busy_submit busy_pending]
      busy_run errs
    by blast
qed

subsection \<open>Decoding the judge's payload\<close>

text \<open>
  Claim C8 says that \<^verbatim>\<open>get_submission_result\<close> decodes the encoded fields and that no
  decoding failure makes it raise. The second half holds for the UTF-8 step only, which
  is called with \<^verbatim>\<open>errors='ignore'\<close>. The base64 step is not guarded: on the stdout
  \<^verbatim>\<open>abc\<close>, \<^verbatim>\<open>base64.b64decode\<close> raises \<^verbatim>\<open>binascii.Error\<close> (incorrect padding),
  which none of the \<^verbatim>\<open>except\<close> clauses catches.
\<close>

theorem fetch_result_raises_on_bad_padding:
  "get_submission_result (FetchResponse 200 [] unpadded_payload) = Inl IncorrectPadding"
  by (simp add: get_submission_result_def unpadded_payload_def decode_field_def b64decode_def
      py_def b64_value_def)

text \<open>
  Claim C8 as amended. For a response with status 200: when each non-empty one of the
  fields stdout, stderr and compile output is accepted by \<^verbatim>\<open>base64.b64decode\<close>, the
  function returns the result whose three fields are the decoded bytes read as UTF-8 with
  invalid sequences dropped (whatever the bytes are), an empty or absent field being left
  as it is; otherwise it raises an exception of the base64 decoding (\<^verbatim>\<open>ValueError\<close> for
  non-ASCII text, \<^verbatim>\<open>binascii.Error\<close> for an incomplete group of data characters).
\<close>

theorem fetch_result_decoding:
  "((\<forall>f \<in> set [p_stdout p, p_stderr p, p_compile_output p].
        truthy f \<longrightarrow> (\<exists>bs. b64decode (the f) = Inr bs)) \<longrightarrow>
      get_submission_result (FetchResponse 200 body p)
        = Inr \<lparr>status = get_default (p_status p) [],
               stdout = exposed (p_stdout p), stderr = exposed (p_stderr p),
               compile_output = exposed (p_compile_output p),
               time = p_time p, memory = p_memory p\<rparr>)
   \<and> (\<not> (\<forall>f \<in> set [p_stdout p, p_stderr p, p_compile_output p].
            truthy f \<longrightarrow> (\<exists>bs. b64decode (the f) = Inr bs)) \<longrightarrow>
        (\<exists>e \<in> {AsciiValueError, IncorrectPadding, InvalidDataCount}.
           get_submission_result (FetchResponse 200 body p) = Inl e))"
proof (intro conjI impI)
  assume ok: "\<forall>f \<in> set [p_stdout p, p_stderr p, p_compile_output p].
        truthy f \<longrightarrow> (\<exists>bs. b64decode (the f) = Inr bs)"
  then have "decode_field (p_stdout p) = Inr (exposed (p_stdout p))"
    "decode_field (p_stderr p) = Inr (exposed (p_stderr p))"
    "decode_field (p_compile_output p) = Inr (exposed (p_compile_output p))"
    by (simp_all add: decode_field_accepted)
  then show "get_submission_result (FetchResponse 200 body p)
        = Inr \<lparr>status = get_default (p_status p) [],
               stdout = exposed (p_stdout p), stderr = exposed (p_stderr p),
               compile_output = exposed (p_compile_output p),
               time = p_time p, memory = p_memory p\<rparr>"
    by (simp add: get_submission_result_def)
next
  assume bad: "\<not> (\<forall>f \<in> set [p_stdout p, p_stderr p, p_compile_output p].
            truthy f \<longrightarrow> (\<exists>bs. b64decode (the f) = Inr bs))"
  then consider
      (out) "\<not> (truthy (p_stdout p) \<longrightarrow> (\<exists>bs. b64decode (the (p_stdout p)) = Inr bs))"
    | (err) "\<not> (truthy (p_stderr p) \<longrightarrow> (\<exists>bs. b64decode (the (p_stderr p)) = Inr bs))"
    | (cmp) "\<not> (truthy (p_compile_output p)
                \<longrightarrow> (\<exists>bs. b64decode (the (p_compile_output p)) = Inr bs))"
    by auto
  then show "\<exists>e \<in> {AsciiValueError, IncorrectPadding, InvalidDataCount}.
           get_submission_result (FetchResponse 200 body p) = Inl e"
  proof cases
    case out
    from decode_field_rejected[OF out] show ?thesis
      by (auto simp: get_submission_result_def)
  next
    case err
    from decode_field_rejected[OF err] decode_field_cases[of "p_stdout p"] show ?thesis
      by (auto simp: get_submission_result_def)
  next
    case cmp
    from decode_field_rejected[OF cmp] decode_field_cases[of "p_stdout p"]
      decode_field_cases[of "p_stderr p"] show ?thesis
      by (auto simp: get_submission_result_def)
  qed
qed

text \<open>
  Well-formed base64 of bytes that are not valid UTF-8: the byte FF is dropped and the
  letter A stays; the three bytes of U+2713 give that one character; the empty compile
  output is left as it is. And the response with the stdout \<^verbatim>\<open>abc\<close> raises.
\<close>

theorem fetch_result_decoding_witness:
  "get_submission_result (FetchResponse 200 [] invalid_utf8_payload)
     = Inr \<lparr>status = [(py ''id'', JInt 3)], stdout = Some (py ''A''), stderr = Some [10003],
            compile_output = Some [], time = None, memory = None\<rparr>
   \<and> (\<exists>e \<in> {AsciiValueError, IncorrectPadding, InvalidDataCount}.
         get_submission_result (FetchResponse 200 [] unpadded_payload) = Inl e)"
proof -
  have d1: "b64decode (py ''/0E='') = Inr [255, 65]"
    and d2: "b64decode (py ''4pyT'') = Inr [226, 156, 147]"
    and d3: "b64decode (py ''abc'') = Inl IncorrectPadding"
    by (simp_all add: b64decode_def py_def b64_value_def)
  have ok: "\<forall>f \<in> set [p_stdout invalid_utf8_payload, p_stderr invalid_utf8_payload,
                      p_compile_output invalid_utf8_payload].
        truthy f \<longrightarrow> (\<exists>bs. b64decode (the f) = Inr bs)"
    by (simp add: invalid_utf8_payload_def d1 d2)
  have bad: "\<not> (\<forall>f \<in> set [p_stdout unpadded_payload, p_stderr unpadded_payload,
                      p_compile_output unpadded_payload].
        truthy f \<longrightarrow> (\<exists>bs. b64decode (the f) = Inr bs))"
    by (simp add: unpadded_payload_def d3) (simp add: py_def)
  have e1: "exposed (p_stdout invalid_utf8_payload) = Some (py ''A'')"
    and e2: "exposed (p_stderr invalid_utf8_payload) = Some [10003]"
    and e3: "exposed (p_compile_output invalid_utf8_payload) = Some []"
    by (simp_all add: exposed_def invalid_utf8_payload_def d1 d2 is_cont_def second_ok3_def)
      (simp_all add: py_def)
  have st: "get_default (p_status invalid_utf8_payload) [] = [(py ''id'', JInt 3)]"
    "p_time invalid_utf8_payload = None" "p_memory invalid_utf8_payload = None"
    by (simp_all add: invalid_utf8_payload_def)
  show ?thesis
    using fetch_result_decoding[where p = invalid_utf8_payload and body = "[]",
        THEN conjunct1, THEN mp, OF ok]
      fetch_result_decoding[where p = unpadded_payload and body = "[]",
        THEN conjunct2, THEN mp, OF bad]
    unfolding e1 e2 e3 st
    by blast
qed

end
